theory Spec2Isabelle
  imports Complex_Main
begin

section \<open>Errors and results\<close>

text \<open>
  Every exception the Python source can raise is a value. A computation that may raise
  returns \<open>error + 'a\<close>, with \<open>Inl\<close> for the exception.
\<close>

datatype error =
  ValueError | RuntimeError | IndexError | AssertionError | AttributeError
  | ZeroDivisionError | OSError

type_synonym 'a result = "error + 'a"

definition bind_r :: "'a result \<Rightarrow> ('a \<Rightarrow> 'b result) \<Rightarrow> 'b result" where
  "bind_r m f = (case m of Inl e \<Rightarrow> Inl e | Inr x \<Rightarrow> f x)"

fun mapM :: "('a \<Rightarrow> 'b result) \<Rightarrow> 'a list \<Rightarrow> 'b list result" where
  "mapM f [] = Inr []"
| "mapM f (x # xs) = bind_r (f x) (\<lambda>y. bind_r (mapM f xs) (\<lambda>ys. Inr (y # ys)))"

section \<open>PositionEmbeddingSine: construction\<close>

record PositionEmbeddingSine =
  num_pos_feats :: nat
  temperature :: real
  normalize_f :: bool
  scale_f :: real

definition PositionEmbeddingSine_init ::
  "nat \<Rightarrow> real \<Rightarrow> bool \<Rightarrow> real option \<Rightarrow> PositionEmbeddingSine result" where
  "PositionEmbeddingSine_init n t nrm sc =
     (if sc \<noteq> None \<and> nrm = False then Inl ValueError
      else Inr \<lparr>num_pos_feats = n, temperature = t, normalize_f = nrm,
                scale_f = (case sc of None \<Rightarrow> 2 * pi | Some s \<Rightarrow> s)\<rparr>)"

section \<open>Activation functions by name\<close>

datatype activation = F_relu | F_gelu | F_glu

definition get_activation_fn :: "string \<Rightarrow> activation result" where
  "get_activation_fn a =
     (if a = ''relu'' then Inr F_relu
      else if a = ''gelu'' then Inr F_gelu
      else if a = ''glu'' then Inr F_glu
      else Inl RuntimeError)"

section \<open>Tensors as nested lists\<close>

text \<open>
  A tensor of rank n is a list nested n times, outermost dimension first. The shape
  predicates below say that a nested list is rectangular with the given sizes.
  Floating-point numbers are modelled by the reals.
\<close>

type_synonym 'a T2 = "'a list list"
type_synonym 'a T3 = "'a list list list"
type_synonym 'a T4 = "'a list list list list"

definition has_shape2 :: "'a T2 \<Rightarrow> nat \<times> nat \<Rightarrow> bool" where
  "has_shape2 t s = (case s of (a, b) \<Rightarrow> length t = a \<and> list_all (\<lambda>r. length r = b) t)"

definition has_shape3 :: "'a T3 \<Rightarrow> nat \<times> nat \<times> nat \<Rightarrow> bool" where
  "has_shape3 t s = (case s of (a, b, c) \<Rightarrow> length t = a \<and> list_all (\<lambda>r. has_shape2 r (b, c)) t)"

definition has_shape4 :: "'a T4 \<Rightarrow> nat \<times> nat \<times> nat \<times> nat \<Rightarrow> bool" where
  "has_shape4 t s = (case s of (a, b, c, d) \<Rightarrow> length t = a \<and> list_all (\<lambda>r. has_shape3 r (b, c, d)) t)"

section \<open>PositionEmbeddingSine: forward\<close>

text \<open>\<open>cumsum v\<close> is \<open>v.cumsum(0)\<close> of a vector, \<open>cumsum_rows\<close> is \<open>m.cumsum(0)\<close> of a
  matrix (running sums down the rows).\<close>

fun cumsum_from :: "real \<Rightarrow> real list \<Rightarrow> real list" where
  "cumsum_from acc [] = []"
| "cumsum_from acc (x # xs) = (acc + x) # cumsum_from (acc + x) xs"

definition cumsum :: "real list \<Rightarrow> real list" where
  "cumsum v = cumsum_from 0 v"

fun cumsum_rows_from :: "real list \<Rightarrow> real T2 \<Rightarrow> real T2" where
  "cumsum_rows_from acc [] = []"
| "cumsum_rows_from acc (r # rs) =
     (let a = map2 (+) acc r in a # cumsum_rows_from a rs)"

definition cumsum_rows :: "real T2 \<Rightarrow> real T2" where
  "cumsum_rows m = (case m of [] \<Rightarrow> [] | r # _ \<Rightarrow> cumsum_rows_from (replicate (length r) 0) m)"

text \<open>\<open>not_mask = ~mask\<close>, read as float32 by the two \<open>cumsum\<close> calls.\<close>

definition not_mask_of :: "bool T3 \<Rightarrow> real T3" where
  "not_mask_of msk = map (map (map (\<lambda>m. if \<not> m then 1 else 0))) msk"

text \<open>Lines 70-75: the position indices along the two axes, normalised when
  \<open>self.normalize\<close> is set (\<open>eps = 1e-6\<close>).\<close>

definition y_embed_of :: "PositionEmbeddingSine \<Rightarrow> bool T3 \<Rightarrow> real T3" where
  "y_embed_of self msk =
     (let y_embed = map cumsum_rows (not_mask_of msk) in
      if normalize_f self
      then map (\<lambda>ye. map (\<lambda>row. map2 (\<lambda>v l. v / (l + 1 / 10 ^ 6) * scale_f self) row (last ye)) ye) y_embed
      else y_embed)"

definition x_embed_of :: "PositionEmbeddingSine \<Rightarrow> bool T3 \<Rightarrow> real T3" where
  "x_embed_of self msk =
     (let x_embed = map (map cumsum) (not_mask_of msk) in
      if normalize_f self
      then map (map (\<lambda>row. map (\<lambda>v. v / (last row + 1 / 10 ^ 6) * scale_f self) row)) x_embed
      else x_embed)"

text \<open>Lines 77-78: \<open>dim_t = temperature ** (2 * (arange(num_pos_feats) // 2) / num_pos_feats)\<close>.
  The power of a positive base is \<open>powr\<close>.\<close>

definition dim_t_of :: "PositionEmbeddingSine \<Rightarrow> real list" where
  "dim_t_of self =
     map (\<lambda>i. temperature self powr (2 * real (i div 2) / real (num_pos_feats self)))
       [0..<num_pos_feats self]"

text \<open>\<open>v[0::2]\<close> and \<open>v[1::2]\<close>.\<close>

fun step2 :: "'a list \<Rightarrow> 'a list" where
  "step2 [] = []"
| "step2 [x] = [x]"
| "step2 (x # y # zs) = x # step2 zs"

definition evens :: "'a list \<Rightarrow> 'a list" where
  "evens v = step2 v"

definition odds :: "'a list \<Rightarrow> 'a list" where
  "odds v = step2 (tl v)"

text \<open>\<open>torch.stack((a, b), dim=-1).flatten(-2)\<close> on the last axis: the two vectors
  interleaved. (\<open>torch.stack\<close> raises when the sizes differ; \<open>forward\<close> checks that
  before it comes here.)\<close>

definition stack_flatten :: "real list \<Rightarrow> real list \<Rightarrow> real list" where
  "stack_flatten a b = concat (map2 (\<lambda>s c. [s, c]) a b)"

definition sincos :: "real list \<Rightarrow> real \<Rightarrow> real list" where
  "sincos dim_t e =
     (let pos = map (\<lambda>d. e / d) dim_t in
      stack_flatten (map sin (evens pos)) (map cos (odds pos)))"

text \<open>\<open>permute(0, 3, 1, 2)\<close> on one batch entry: from (H, W, C) to (C, H, W).\<close>

definition permute_hwc_chw :: "nat \<Rightarrow> 'a T3 \<Rightarrow> 'a T3" where
  "permute_hwc_chw C t = map (\<lambda>c. map (map (\<lambda>v. v ! c)) t) [0..<C]"

text \<open>
  \<open>forward(x, mask=None)\<close>. The input \<open>x\<close> is read only through its sizes (and its
  device), so the model takes \<open>x.size()\<close>; \<open>x.size(3)\<close> on a tensor of lower rank
  is an IndexError. \<open>torch.stack\<close> raises a RuntimeError when \<open>pos[..., 0::2]\<close> and
  \<open>pos[..., 1::2]\<close> differ in size, whatever the other dimensions are.
\<close>

definition PositionEmbeddingSine_forward ::
  "PositionEmbeddingSine \<Rightarrow> nat list \<Rightarrow> bool T3 option \<Rightarrow> real T4 result" where
  "PositionEmbeddingSine_forward self x_size msk =
     bind_r (case msk of
               Some m \<Rightarrow> Inr m
             | None \<Rightarrow>
                 if length x_size < 4 then Inl IndexError
                 else Inr (replicate (x_size ! 0) (replicate (x_size ! 2) (replicate (x_size ! 3) False))))
       (\<lambda>msk.
          let y_embed = y_embed_of self msk;
              x_embed = x_embed_of self msk;
              dim_t = dim_t_of self
          in if length (evens dim_t) \<noteq> length (odds dim_t) then Inl RuntimeError
             else
               Inr (map2 (\<lambda>ye xe.
                      permute_hwc_chw (2 * num_pos_feats self)
                        (map2 (map2 (\<lambda>y x. sincos dim_t y @ sincos dim_t x)) ye xe))
                    y_embed x_embed))"

section \<open>Tensor operations the source calls\<close>

text \<open>\<open>t.permute(1, 0, 2)\<close>: the first two axes exchanged.\<close>

definition permute102 :: "'a T3 \<Rightarrow> 'a T3" where
  "permute102 t =
     (case t of [] \<Rightarrow> [] | r # _ \<Rightarrow> map (\<lambda>j. map (\<lambda>row. row ! j) t) [0..<length r])"

text \<open>\<open>torch.cat(ts, dim=1)\<close> of rank-3 tensors: the list must not be empty, and the
  tensors must agree on the sizes of axis 0 and axis 2, or torch raises a RuntimeError.\<close>

definition cat_compatible :: "'a T3 list \<Rightarrow> bool" where
  "cat_compatible ts =
     (case ts of [] \<Rightarrow> False
      | t # _ \<Rightarrow>
          list_all (\<lambda>u. length u = length t) ts \<and>
          (let vs = concat (concat ts) in list_all (\<lambda>v. length v = length (hd vs)) vs))"

definition torch_cat1 :: "'a T3 list \<Rightarrow> 'a T3 result" where
  "torch_cat1 ts =
     (if cat_compatible ts
      then Inr (map (\<lambda>b. concat (map (\<lambda>u. u ! b) ts)) [0..<length (hd ts)])
      else Inl RuntimeError)"

text \<open>\<open>a + b\<close> with torch's broadcasting, one axis at a time: sizes must be equal, or
  one of them 1; otherwise a RuntimeError.\<close>

definition bcast :: "('a \<Rightarrow> 'b \<Rightarrow> 'c result) \<Rightarrow> 'a list \<Rightarrow> 'b list \<Rightarrow> 'c list result" where
  "bcast f xs ys =
     (if length xs = length ys then mapM (\<lambda>(x, y). f x y) (zip xs ys)
      else if length xs = 1 then mapM (\<lambda>y. f (hd xs) y) ys
      else if length ys = 1 then mapM (\<lambda>x. f x (hd ys)) xs
      else Inl RuntimeError)"

definition tadd1 :: "real list \<Rightarrow> real list \<Rightarrow> real list result" where
  "tadd1 = bcast (\<lambda>x y. Inr (x + y))"

definition tadd2 :: "real T2 \<Rightarrow> real T2 \<Rightarrow> real T2 result" where
  "tadd2 = bcast tadd1"

definition tadd3 :: "real T3 \<Rightarrow> real T3 \<Rightarrow> real T3 result" where
  "tadd3 = bcast tadd2"

section \<open>Parameters and modules\<close>

text \<open>
  A parameter is its data and its \<open>requires_grad\<close> flag; \<open>nn.Parameter(d)\<close> sets the
  flag. A torch module whose code is not part of the repository is the list of its named
  parameters, with weights of an unspecified type \<open>'w\<close>; what such a module computes
  is a function of its weights given by the environment \<open>torch\<close> below.
\<close>

record 'd Parameter =
  data :: 'd
  requires_grad :: bool

definition nn_Parameter :: "'d \<Rightarrow> 'd Parameter" where
  "nn_Parameter d = \<lparr>data = d, requires_grad = True\<rparr>"

type_synonym 'w Module = "(string \<times> 'w Parameter) list"

definition new_module :: "(string \<times> 'w) list \<Rightarrow> 'w Module" where
  "new_module ws = map (\<lambda>(n, w). (n, nn_Parameter w)) ws"

definition parameters :: "'w Module \<Rightarrow> 'w Parameter list" where
  "parameters m = map snd m"

definition weights :: "'w Module \<Rightarrow> 'w list" where
  "weights m = map (\<lambda>(n, q). data q) m"

text \<open>\<open>for param in m.parameters(): param.requires_grad = False\<close>\<close>

definition freeze :: "'w Module \<Rightarrow> 'w Module" where
  "freeze m = map (\<lambda>(n, q). (n, q\<lparr>requires_grad := False\<rparr>)) m"

text \<open>
  The torch library: the initial weights of a freshly constructed module, and the
  function each module computes from its weights. \<open>'r\<close> is the state of the random
  number generator that dropout samples from.
\<close>

record ('w, 'r) torch =
  init_LayerNorm :: "nat \<Rightarrow> (string \<times> 'w) list"
  init_Linear :: "nat \<Rightarrow> nat \<Rightarrow> bool \<Rightarrow> (string \<times> 'w) list"
  init_MultiheadAttention :: "nat \<Rightarrow> nat \<Rightarrow> (string \<times> 'w) list"
  init_Embedding :: "nat \<Rightarrow> nat \<Rightarrow> real T2"
  shape_of :: "'w \<Rightarrow> nat list"
  layer_norm :: "'w list \<Rightarrow> real T3 \<Rightarrow> real T3 result"
  linear :: "'w list \<Rightarrow> real T3 \<Rightarrow> real T3 result"
  multi_head_attention ::
    "'w list \<Rightarrow> nat \<Rightarrow> real T3 \<Rightarrow> real T3 \<Rightarrow> real T3 \<Rightarrow> real T2 option \<Rightarrow> bool T2 option
       \<Rightarrow> (real T3 \<times> real T3) result"
  multi_head_attention_dropout ::
    "'r \<Rightarrow> real \<Rightarrow> 'w list \<Rightarrow> nat \<Rightarrow> real T3 \<Rightarrow> real T3 \<Rightarrow> real T3 \<Rightarrow> real T2 option
       \<Rightarrow> bool T2 option \<Rightarrow> (real T3 \<times> real T3) result"
  dropout_sample :: "'r \<Rightarrow> real \<Rightarrow> real T3 \<Rightarrow> real T3"
  relu :: "real T3 \<Rightarrow> real T3 result"
  gelu :: "real T3 \<Rightarrow> real T3 result"
  glu :: "real T3 \<Rightarrow> real T3 result"
  torch_load :: "string \<Rightarrow> (string \<times> 'w) list result"

definition nn_LayerNorm :: "('w, 'r) torch \<Rightarrow> nat \<Rightarrow> 'w Module" where
  "nn_LayerNorm T d = new_module (init_LayerNorm T d)"

definition nn_Linear :: "('w, 'r) torch \<Rightarrow> nat \<Rightarrow> nat \<Rightarrow> bool \<Rightarrow> 'w Module" where
  "nn_Linear T i o_f b = new_module (init_Linear T i o_f b)"

text \<open>\<open>nn.Dropout(p)\<close> raises a ValueError unless \<open>0 \<le> p \<le> 1\<close>. A module starts in
  training mode. Dropout is the identity when \<open>p = 0\<close> or outside training mode;
  otherwise it samples.\<close>

record Dropout =
  dropout_p :: real
  dropout_training :: bool

definition nn_Dropout :: "real \<Rightarrow> Dropout result" where
  "nn_Dropout q =
     (if q < 0 \<or> 1 < q then Inl ValueError
      else Inr \<lparr>dropout_p = q, dropout_training = True\<rparr>)"

definition Dropout_forward :: "('w, 'r) torch \<Rightarrow> 'r \<Rightarrow> Dropout \<Rightarrow> real T3 \<Rightarrow> real T3" where
  "Dropout_forward T rng d x =
     (if dropout_p d = 0 \<or> \<not> dropout_training d then x
      else dropout_sample T rng (dropout_p d) x)"

text \<open>\<open>nn.MultiheadAttention(embed_dim, num_heads, dropout)\<close> computes
  \<open>head_dim = embed_dim // num_heads\<close> and asserts that
  \<open>head_dim * num_heads == embed_dim\<close>. Its forward passes
  \<open>dropout_p = self.dropout\<close> and \<open>self.training\<close> on; outside training mode the
  probability is taken as 0, and dropout is applied to the attention weights only when
  it is positive.\<close>

record 'w MultiheadAttention =
  mha_params :: "'w Module"
  num_heads :: nat
  mha_dropout :: real
  mha_training :: bool

definition nn_MultiheadAttention ::
  "('w, 'r) torch \<Rightarrow> nat \<Rightarrow> nat \<Rightarrow> real \<Rightarrow> 'w MultiheadAttention result" where
  "nn_MultiheadAttention T embed_dim nhead q =
     (if nhead = 0 then Inl ZeroDivisionError
      else if (embed_dim div nhead) * nhead \<noteq> embed_dim then Inl AssertionError
      else Inr \<lparr>mha_params = new_module (init_MultiheadAttention T embed_dim nhead),
                num_heads = nhead, mha_dropout = q, mha_training = True\<rparr>)"

definition MultiheadAttention_forward ::
  "('w, 'r) torch \<Rightarrow> 'r \<Rightarrow> 'w MultiheadAttention \<Rightarrow> real T3 \<Rightarrow> real T3 \<Rightarrow> real T3
     \<Rightarrow> real T2 option \<Rightarrow> bool T2 option \<Rightarrow> (real T3 \<times> real T3) result" where
  "MultiheadAttention_forward T rng m q k v attn_mask key_padding_mask =
     (let q_drop = (if mha_training m then mha_dropout m else 0) in
      if 0 < q_drop
      then multi_head_attention_dropout T rng q_drop (weights (mha_params m)) (num_heads m)
             q k v attn_mask key_padding_mask
      else multi_head_attention T (weights (mha_params m)) (num_heads m)
             q k v attn_mask key_padding_mask)"

text \<open>\<open>nn.Embedding(num, dim)\<close>: a table of \<open>num\<close> rows; looking up an index outside
  the table is an IndexError.\<close>

record Embedding =
  weight :: "real T2 Parameter"

definition nn_Embedding :: "('w, 'r) torch \<Rightarrow> nat \<Rightarrow> nat \<Rightarrow> Embedding" where
  "nn_Embedding T num d = \<lparr>weight = nn_Parameter (init_Embedding T num d)\<rparr>"

definition Embedding_forward :: "Embedding \<Rightarrow> nat T2 \<Rightarrow> real T3 result" where
  "Embedding_forward E idx =
     (let W = data (weight E) in
      mapM (mapM (\<lambda>k. if k < length W then Inr (W ! k) else Inl IndexError)) idx)"

section \<open>TransformerSALayer\<close>

record 'w TransformerSALayer =
  self_attn :: "'w MultiheadAttention"
  linear1 :: "'w Module"
  dropout :: Dropout
  linear2 :: "'w Module"
  norm1 :: "'w Module"
  norm2 :: "'w Module"
  dropout1 :: Dropout
  dropout2 :: Dropout
  activation_f :: activation

definition TransformerSALayer_init ::
  "('w, 'r) torch \<Rightarrow> nat \<Rightarrow> nat \<Rightarrow> nat \<Rightarrow> real \<Rightarrow> string \<Rightarrow> 'w TransformerSALayer result" where
  "TransformerSALayer_init T embed_dim nhead d_mlp q act =
     bind_r (nn_MultiheadAttention T embed_dim nhead q) (\<lambda>sa.
     let l1 = nn_Linear T embed_dim d_mlp True in
     bind_r (nn_Dropout q) (\<lambda>dr.
     let l2 = nn_Linear T d_mlp embed_dim True;
         n1 = nn_LayerNorm T embed_dim;
         n2 = nn_LayerNorm T embed_dim in
     bind_r (nn_Dropout q) (\<lambda>dr1.
     bind_r (nn_Dropout q) (\<lambda>dr2.
     bind_r (get_activation_fn act) (\<lambda>a.
       Inr \<lparr>self_attn = sa, linear1 = l1, dropout = dr, linear2 = l2, norm1 = n1,
            norm2 = n2, dropout1 = dr1, dropout2 = dr2, activation_f = a\<rparr>)))))"

definition with_pos_embed :: "real T3 \<Rightarrow> real T3 option \<Rightarrow> real T3 result" where
  "with_pos_embed tensor pos = (case pos of None \<Rightarrow> Inr tensor | Some q \<Rightarrow> tadd3 tensor q)"

definition apply_activation :: "('w, 'r) torch \<Rightarrow> activation \<Rightarrow> real T3 \<Rightarrow> real T3 result" where
  "apply_activation T a x =
     (case a of F_relu \<Rightarrow> relu T x | F_gelu \<Rightarrow> gelu T x | F_glu \<Rightarrow> glu T x)"

definition TransformerSALayer_forward ::
  "('w, 'r) torch \<Rightarrow> 'r \<Rightarrow> 'w TransformerSALayer \<Rightarrow> real T3 \<Rightarrow> real T2 option \<Rightarrow> bool T2 option
     \<Rightarrow> real T3 option \<Rightarrow> real T3 result" where
  "TransformerSALayer_forward T rng self tgt tgt_mask tgt_key_padding_mask query_pos =
     bind_r (layer_norm T (weights (norm1 self)) tgt) (\<lambda>tgt2.
     bind_r (with_pos_embed tgt2 query_pos) (\<lambda>q.
     let k = q in
     bind_r (MultiheadAttention_forward T rng (self_attn self) q k tgt2 tgt_mask
               tgt_key_padding_mask) (\<lambda>att.
     let tgt2 = fst att in
     bind_r (tadd3 tgt (Dropout_forward T rng (dropout1 self) tgt2)) (\<lambda>tgt.
     bind_r (layer_norm T (weights (norm2 self)) tgt) (\<lambda>tgt2.
     bind_r (linear T (weights (linear1 self)) tgt2) (\<lambda>h.
     bind_r (apply_activation T (activation_f self) h) (\<lambda>g.
     bind_r (linear T (weights (linear2 self)) (Dropout_forward T rng (dropout self) g)) (\<lambda>tgt2.
       tadd3 tgt (Dropout_forward T rng (dropout2 self) tgt2)))))))))"

section \<open>The tokenizer: VQVAE\<close>

text \<open>
  Modelled from the spec: the class \<open>VQVAE\<close> (\<open>basicsr/archs/vqvae_arch.py\<close>) is not
  among the sources. The spec has it own an encoder, a decoder, a quantizer and the two
  quantization convolutions, configured by the vocabulary size, the latent channel count,
  the base channel width and the ordered list of scales; it maps an image to a latent and
  the latent to one index tensor per scale. The model keeps the constructor's arguments,
  the scales as pairs (ph, pw), and the sub-modules by name; what they compute is given by
  the environment \<open>vqvae_arch\<close>.
\<close>

record vq_config =
  vocab_size :: nat
  z_channels :: nat
  ch :: nat
  test_mode :: bool
  share_quant_resi :: nat
  v_patch_nums :: "nat list"

record 'w VQVAE =
  vq_args :: vq_config
  patch_hws :: "(nat \<times> nat) list"
  submodules :: "(string \<times> 'w Module) list"

record 'w vqvae_arch =
  init_VQVAE :: "vq_config \<Rightarrow> (string \<times> (string \<times> 'w) list) list result"
  encoder_forward :: "vq_config \<Rightarrow> 'w list \<Rightarrow> real T4 \<Rightarrow> real T4 result"
  quant_conv_forward :: "vq_config \<Rightarrow> 'w list \<Rightarrow> real T4 \<Rightarrow> real T4 result"
  f_to_idxBl :: "vq_config \<Rightarrow> 'w list \<Rightarrow> real T4 \<Rightarrow> nat T2 list result"

definition VQVAE_init :: "'w vqvae_arch \<Rightarrow> vq_config \<Rightarrow> 'w VQVAE result" where
  "VQVAE_init A cfg =
     bind_r (init_VQVAE A cfg) (\<lambda>ms.
       Inr \<lparr>vq_args = cfg,
            patch_hws = map (\<lambda>pn. (pn, pn)) (v_patch_nums cfg),
            submodules = map (\<lambda>(n, ws). (n, new_module ws)) ms\<rparr>)"

text \<open>\<open>getattr(self, name)\<close> for a sub-module.\<close>

definition getattr :: "'w VQVAE \<Rightarrow> string \<Rightarrow> 'w Module result" where
  "getattr self n =
     (case map_of (submodules self) n of None \<Rightarrow> Inl AttributeError | Some m \<Rightarrow> Inr m)"

text \<open>\<open>self.parameters()\<close> of the tokenizer: the parameters of all its sub-modules.\<close>

definition VQVAE_parameters :: "'w VQVAE \<Rightarrow> 'w Parameter list" where
  "VQVAE_parameters self = concat (map (\<lambda>(n, m). parameters m) (submodules self))"

text \<open>\<open>load_state_dict\<close> (strict): the keys of the checkpoint must be the names of the
  parameters and the shapes must agree, or a RuntimeError is raised; the data is copied,
  the flags stay.\<close>

definition state_dict :: "'w VQVAE \<Rightarrow> (string \<times> 'w) list" where
  "state_dict self =
     concat (map (\<lambda>(n, m). map (\<lambda>(k, q). (n @ ''.'' @ k, data q)) m) (submodules self))"

definition load_state_dict ::
  "('w, 'r) torch \<Rightarrow> 'w VQVAE \<Rightarrow> (string \<times> 'w) list \<Rightarrow> 'w VQVAE result" where
  "load_state_dict T self sd =
     (if set (map fst sd) \<noteq> set (map fst (state_dict self))
         \<or> \<not> list_all (\<lambda>(k, w). map_option (shape_of T) (map_of sd k) = Some (shape_of T w))
               (state_dict self)
      then Inl RuntimeError
      else Inr (self\<lparr>submodules :=
             map (\<lambda>(n, m). (n, map (\<lambda>(k, q). (k, q\<lparr>data := the (map_of sd (n @ ''.'' @ k))\<rparr>)) m))
               (submodules self)\<rparr>))"

text \<open>Lines 227-229 of \<open>CodeFormer2.forward\<close>: the latent and the index pyramid
  (\<open>f_to_idxBl_or_fhat\<close> with \<open>to_fhat=False\<close>).\<close>

definition tokenize ::
  "'w vqvae_arch \<Rightarrow> 'w VQVAE \<Rightarrow> real T4 \<Rightarrow> (real T4 \<times> nat T2 list) result" where
  "tokenize A self x =
     bind_r (getattr self ''quant_conv'') (\<lambda>qc.
     bind_r (getattr self ''encoder'') (\<lambda>enc.
     bind_r (encoder_forward A (vq_args self) (weights enc) x) (\<lambda>h.
     bind_r (quant_conv_forward A (vq_args self) (weights qc) h) (\<lambda>x.
     let lq_feat = x in
     bind_r (getattr self ''quantize'') (\<lambda>qz.
     bind_r (f_to_idxBl A (vq_args self) (weights qz) lq_feat) (\<lambda>idx_list.
       Inr (lq_feat, idx_list)))))))"

section \<open>CodeFormer2\<close>

record 'w CodeFormer2 =
  vqvae :: "'w VQVAE"
  connect_list :: "string list"
  n_layers :: nat
  dim_embd :: nat
  dim_mlp :: nat
  position_emb :: "real T2 Parameter"
  feat_emb :: "Embedding list"
  ft_layers :: "'w TransformerSALayer list"
  idx_pred_layer :: "'w Module \<times> 'w Module"

text \<open>Lines 191-193: \<open>for module in fix_modules: for param in getattr(self,
  module).parameters(): param.requires_grad = False\<close>.\<close>

fun freeze_modules :: "string list \<Rightarrow> 'w VQVAE \<Rightarrow> 'w VQVAE result" where
  "freeze_modules [] self = Inr self"
| "freeze_modules (m # ms) self =
     bind_r (getattr self m) (\<lambda>md.
       freeze_modules ms
         (self\<lparr>submodules := map (\<lambda>(n, x). if n = m then (n, freeze x) else (n, x)) (submodules self)\<rparr>))"

definition CodeFormer2_init ::
  "('w, 'r) torch \<Rightarrow> 'w vqvae_arch \<Rightarrow> nat \<Rightarrow> nat \<Rightarrow> nat \<Rightarrow> nat \<Rightarrow> nat \<Rightarrow> string list
     \<Rightarrow> string option \<Rightarrow> 'w CodeFormer2 result" where
  "CodeFormer2_init T A d_embd n_head n_lay codebook_size latent_size conn vqvae_path =
     bind_r (VQVAE_init A \<lparr>vocab_size = codebook_size, z_channels = 32, ch = 160,
                            test_mode = False, share_quant_resi = 4,
                            v_patch_nums = [1, 2, 3, 4, 5, 6, 8, 10, 13, 16]\<rparr>) (\<lambda>self.
     bind_r (case vqvae_path of
               None \<Rightarrow> Inr self
             | Some path \<Rightarrow> bind_r (torch_load T path) (load_state_dict T self)) (\<lambda>self.
     let self = self\<lparr>submodules := map (\<lambda>(n, m). (n, freeze m)) (submodules self)\<rparr> in
     bind_r (freeze_modules [''decoder'', ''quantize'', ''post_quant_conv''] self) (\<lambda>self.
     let d_mlp = d_embd * 2;
         pos = nn_Parameter (replicate 680 (replicate d_embd 0));
         fe = map (\<lambda>(ph, pw). nn_Embedding T codebook_size d_embd) (patch_hws self) in
     bind_r (mapM (\<lambda>_. TransformerSALayer_init T d_embd n_head d_mlp 0 ''gelu'') [0..<n_lay])
       (\<lambda>layers.
         Inr \<lparr>vqvae = self, connect_list = conn, n_layers = n_lay, dim_embd = d_embd,
              dim_mlp = d_mlp, position_emb = pos, feat_emb = fe, ft_layers = layers,
              idx_pred_layer = (nn_LayerNorm T d_embd, nn_Linear T d_embd codebook_size False)\<rparr>))))"

text \<open>Lines 232-235: each level of the pyramid is embedded by the table of its index,
  the results are concatenated along the sequence axis and brought to the layout
  (sequence, batch, dim). \<open>self.feat_emb[i]\<close> past the end of the module list is an
  IndexError.\<close>

fun embed_loop :: "Embedding list \<Rightarrow> nat \<Rightarrow> nat T2 list \<Rightarrow> real T3 list result" where
  "embed_loop fe i [] = Inr []"
| "embed_loop fe i (idx # rest) =
     (if i < length fe
      then bind_r (Embedding_forward (fe ! i) idx) (\<lambda>e.
           bind_r (embed_loop fe (Suc i) rest) (\<lambda>es. Inr (e # es)))
      else Inl IndexError)"

definition embed_tokens :: "Embedding list \<Rightarrow> nat T2 list \<Rightarrow> real T3 result" where
  "embed_tokens fe idx_list =
     bind_r (embed_loop fe 0 idx_list) (\<lambda>idx_embed_all.
     bind_r (torch_cat1 idx_embed_all) (\<lambda>c. Inr (permute102 c)))"

text \<open>Lines 238-239: \<open>for layer in self.ft_layers: query_emb = layer(query_emb,
  query_pos=pos_emb)\<close>.\<close>

fun run_layers ::
  "('w, 'r) torch \<Rightarrow> 'r \<Rightarrow> 'w TransformerSALayer list \<Rightarrow> real T3 \<Rightarrow> real T3 \<Rightarrow> real T3 result" where
  "run_layers T rng [] pos_emb query_emb = Inr query_emb"
| "run_layers T rng (layer # ls) pos_emb query_emb =
     bind_r (TransformerSALayer_forward T rng layer query_emb None None (Some pos_emb))
       (run_layers T rng ls pos_emb)"

text \<open>\<open>forward(x, w=0, detach_16=True, code_only=False, adain=False)\<close>. The position
  embedding is repeated over the batch: \<open>position_emb.unsqueeze(1).repeat(1, x.shape[0], 1)\<close>,
  where \<open>x\<close> is by then the latent.\<close>

definition CodeFormer2_forward ::
  "('w, 'r) torch \<Rightarrow> 'w vqvae_arch \<Rightarrow> 'r \<Rightarrow> 'w CodeFormer2 \<Rightarrow> real T4 \<Rightarrow> real \<Rightarrow> bool \<Rightarrow> bool \<Rightarrow> bool
     \<Rightarrow> (real T3 \<times> real T4) result" where
  "CodeFormer2_forward T A rng self x w detach_16 code_only adain =
     bind_r (tokenize A (vqvae self) x) (\<lambda>(lq_feat, idx_list).
     let pos_emb = map (\<lambda>row. replicate (length lq_feat) row) (data (position_emb self)) in
     bind_r (embed_tokens (feat_emb self) idx_list) (\<lambda>idx_embed.
     let query_emb = idx_embed in
     bind_r (run_layers T rng (ft_layers self) pos_emb query_emb) (\<lambda>query_emb.
     bind_r (layer_norm T (weights (fst (idx_pred_layer self))) query_emb) (\<lambda>n.
     bind_r (linear T (weights (snd (idx_pred_layer self))) n) (\<lambda>logits.
     let logits = permute102 logits in
       Inr (logits, lq_feat))))))"

text \<open>\<open>layer.parameters()\<close> of one attention block, in the order of registration
  (the dropout modules have none).\<close>

definition TransformerSALayer_parameters :: "'w TransformerSALayer \<Rightarrow> 'w Parameter list" where
  "TransformerSALayer_parameters layer =
     parameters (mha_params (self_attn layer)) @ parameters (linear1 layer)
       @ parameters (linear2 layer) @ parameters (norm1 layer) @ parameters (norm2 layer)"

section \<open>What the claims speak of\<close>

text \<open>The number of tokens of one scale, and the total over the configured scales.\<close>

definition token_count :: "nat \<times> nat \<Rightarrow> nat" where
  "token_count hw = (case hw of (ph, pw) \<Rightarrow> ph * pw)"

definition total_tokens :: "(nat \<times> nat) list \<Rightarrow> nat" where
  "total_tokens hws = sum_list (map token_count hws)"

text \<open>
  Modelled from the spec: a valid input batch of size \<open>B\<close> is one the tokenizer maps to
  a latent of shape (B, latent channels, 16, 16) and to a pyramid with one index tensor of
  shape (B, ph * pw) per configured scale, whose values are token ids below the codebook
  size.
\<close>

definition valid_pyramid :: "nat \<Rightarrow> nat \<Rightarrow> (nat \<times> nat) list \<Rightarrow> nat T2 list \<Rightarrow> bool" where
  "valid_pyramid B V hws idx_list =
     list_all2 (\<lambda>idx hw. has_shape2 idx (B, token_count hw) \<and> list_all (list_all (\<lambda>k. k < V)) idx)
       idx_list hws"

definition valid_input :: "'w vqvae_arch \<Rightarrow> 'w VQVAE \<Rightarrow> real T4 \<Rightarrow> nat \<Rightarrow> bool" where
  "valid_input A vq x B =
     (case tokenize A vq x of
        Inl e \<Rightarrow> False
      | Inr (lq_feat, idx_list) \<Rightarrow>
          has_shape4 lq_feat (B, z_channels (vq_args vq), 16, 16) \<and>
          valid_pyramid B (vocab_size (vq_args vq)) (patch_hws vq) idx_list)"

text \<open>
  What torch documents about the shapes of the modules the source constructs: a fresh
  \<open>LayerNorm(d)\<close> keeps the shape of an input whose last axis is \<open>d\<close>; a fresh
  \<open>Linear(i, o)\<close> maps a last axis of size \<open>i\<close> to one of size \<open>o\<close>; a fresh
  \<open>MultiheadAttention(e, h)\<close> returns an attention output of the shape of its query;
  \<open>relu\<close> and \<open>gelu\<close> keep the shape; a fresh \<open>Embedding(n, d)\<close> has an \<open>n\<close> by
  \<open>d\<close> table.
\<close>

definition LayerNorm_ok :: "('w, 'r) torch \<Rightarrow> bool" where
  "LayerNorm_ok T =
     (\<forall>d x a b. has_shape3 x (a, b, d) \<longrightarrow>
        (\<exists>y. layer_norm T (map snd (init_LayerNorm T d)) x = Inr y \<and> has_shape3 y (a, b, d)))"

definition Linear_ok :: "('w, 'r) torch \<Rightarrow> bool" where
  "Linear_ok T =
     (\<forall>i o_f bias x a b. has_shape3 x (a, b, i) \<longrightarrow>
        (\<exists>y. linear T (map snd (init_Linear T i o_f bias)) x = Inr y \<and> has_shape3 y (a, b, o_f)))"

definition MultiheadAttention_ok :: "('w, 'r) torch \<Rightarrow> bool" where
  "MultiheadAttention_ok T =
     (\<forall>e h q k v a b am kpm.
        0 < h \<and> (e div h) * h = e \<and> has_shape3 q (a, b, e) \<and> has_shape3 k (a, b, e)
          \<and> has_shape3 v (a, b, e) \<and> am = None \<and> kpm = None \<longrightarrow>
        (\<exists>out wts. multi_head_attention T (map snd (init_MultiheadAttention T e h)) h q k v am kpm
                      = Inr (out, wts) \<and> has_shape3 out (a, b, e)))"

definition activations_ok :: "('w, 'r) torch \<Rightarrow> bool" where
  "activations_ok T =
     (\<forall>x s. has_shape3 x s \<longrightarrow>
        (\<exists>y. relu T x = Inr y \<and> has_shape3 y s) \<and> (\<exists>y. gelu T x = Inr y \<and> has_shape3 y s))"

definition Embedding_ok :: "('w, 'r) torch \<Rightarrow> bool" where
  "Embedding_ok T = (\<forall>n d. has_shape2 (init_Embedding T n d) (n, d))"

definition torch_ok :: "('w, 'r) torch \<Rightarrow> bool" where
  "torch_ok T =
     (LayerNorm_ok T \<and> Linear_ok T \<and> MultiheadAttention_ok T \<and> activations_ok T \<and> Embedding_ok T)"

text \<open>No dropout module of the block samples: each has probability 0 or is outside
  training mode.\<close>

definition dropout_off :: "Dropout \<Rightarrow> bool" where
  "dropout_off d = (dropout_p d = 0 \<or> \<not> dropout_training d)"

definition dropout_inactive :: "'w TransformerSALayer \<Rightarrow> bool" where
  "dropout_inactive layer =
     (dropout_off (dropout1 layer) \<and> dropout_off (dropout layer) \<and> dropout_off (dropout2 layer)
      \<and> (mha_dropout (self_attn layer) \<le> 0 \<or> \<not> mha_training (self_attn layer)))"

text \<open>
  The attention block in the spec's words: normalise the input; add the position bias to
  form queries and keys, the values being the normalised input without the bias; run the
  attention and add its output to the un-normalised input; normalise again, apply the
  first linear map, the nonlinearity and the second linear map, and add the result to the
  residual stream.
\<close>

definition sa_layer_spec ::
  "('w, 'r) torch \<Rightarrow> 'w TransformerSALayer \<Rightarrow> real T3 \<Rightarrow> real T2 option \<Rightarrow> bool T2 option
     \<Rightarrow> real T3 option \<Rightarrow> real T3 result" where
  "sa_layer_spec T layer tgt attn_mask key_padding_mask query_pos =
     bind_r (layer_norm T (weights (norm1 layer)) tgt) (\<lambda>n1.
     bind_r (case query_pos of None \<Rightarrow> Inr n1 | Some bias \<Rightarrow> tadd3 n1 bias) (\<lambda>qk.
     bind_r (multi_head_attention T (weights (mha_params (self_attn layer)))
               (num_heads (self_attn layer)) qk qk n1 attn_mask key_padding_mask) (\<lambda>att.
     bind_r (tadd3 tgt (fst att)) (\<lambda>r1.
     bind_r (layer_norm T (weights (norm2 layer)) r1) (\<lambda>n2.
     bind_r (linear T (weights (linear1 layer)) n2) (\<lambda>h.
     bind_r (apply_activation T (activation_f layer) h) (\<lambda>g.
     bind_r (linear T (weights (linear2 layer)) g) (\<lambda>f.
       tadd3 r1 f))))))))"

text \<open>The configuration the constructor of \<open>CodeFormer2\<close> passes to the tokenizer.\<close>

definition fixed_config :: "nat \<Rightarrow> vq_config" where
  "fixed_config V = \<lparr>vocab_size = V, z_channels = 32, ch = 160, test_mode = False,
     share_quant_resi = 4, v_patch_nums = [1, 2, 3, 4, 5, 6, 8, 10, 13, 16]\<rparr>"

section \<open>A concrete library and tokenizer\<close>

text \<open>
  An instance of the two environments on which the definitions can be evaluated. A
  weight is represented by its shape. The functions have the shapes torch documents
  (a linear map checks the size of the last axis, \<open>glu\<close> halves it, dropout with
  probability 1 returns zeros); the numbers they return are simplified.
\<close>

definition toy_linear :: "nat list list \<Rightarrow> real T3 \<Rightarrow> real T3 result" where
  "toy_linear ws x =
     (case ws of
        [] \<Rightarrow> Inl RuntimeError
      | w # _ \<Rightarrow>
          if list_all (list_all (\<lambda>v. length v = w ! 1)) x
          then Inr (map (map (\<lambda>v. replicate (w ! 0) (sum_list v))) x)
          else Inl RuntimeError)"

definition toy_glu :: "real T3 \<Rightarrow> real T3 result" where
  "toy_glu x =
     (if list_all (list_all (\<lambda>v. even (length v))) x
      then Inr (map (map (\<lambda>v. take (length v div 2) v)) x)
      else Inl RuntimeError)"

definition toy_torch :: "(nat list, nat) torch" where
  "toy_torch =
     \<lparr>init_LayerNorm = (\<lambda>d. [(''weight'', [d]), (''bias'', [d])]),
      init_Linear = (\<lambda>i o_f b. (''weight'', [o_f, i]) # (if b then [(''bias'', [o_f])] else [])),
      init_MultiheadAttention = (\<lambda>e h.
        [(''in_proj_weight'', [3 * e, e]), (''in_proj_bias'', [3 * e]),
         (''out_proj.weight'', [e, e]), (''out_proj.bias'', [e])]),
      init_Embedding = (\<lambda>n d. replicate n (replicate d 1)),
      shape_of = (\<lambda>w. w),
      layer_norm = (\<lambda>ws x. Inr x),
      linear = toy_linear,
      multi_head_attention = (\<lambda>ws h q k v am kpm. Inr (v, [])),
      multi_head_attention_dropout = (\<lambda>rng q ws h qq k v am kpm. Inr (map (map (map (\<lambda>_. 0))) v, [])),
      dropout_sample = (\<lambda>rng q x. map (map (map (\<lambda>_. 0))) x),
      relu = (\<lambda>x. Inr (map (map (map (\<lambda>v. max 0 v))) x)),
      gelu = (\<lambda>x. Inr x),
      glu = toy_glu,
      torch_load = (\<lambda>path. Inl OSError)\<rparr>"

definition toy_arch :: "nat list vqvae_arch" where
  "toy_arch =
     \<lparr>init_VQVAE = (\<lambda>cfg. Inr
        [(''encoder'', [(''conv_in.weight'', [ch cfg, 3, 3, 3])]),
         (''decoder'', [(''conv_out.weight'', [3, ch cfg, 3, 3])]),
         (''quantize'', [(''embedding.weight'', [vocab_size cfg, z_channels cfg])]),
         (''quant_conv'', [(''weight'', [z_channels cfg, z_channels cfg, 3, 3])]),
         (''post_quant_conv'', [(''weight'', [z_channels cfg, z_channels cfg, 3, 3])])]),
      encoder_forward = (\<lambda>cfg ws x.
        Inr (map (\<lambda>_. replicate (z_channels cfg) (replicate 16 (replicate 16 0))) x)),
      quant_conv_forward = (\<lambda>cfg ws h. Inr h),
      f_to_idxBl = (\<lambda>cfg ws f.
        Inr (map (\<lambda>pn. map (\<lambda>_. replicate (pn * pn) 0) f) (v_patch_nums cfg)))\<rparr>"

text \<open>A batch of one image (the pixels do not matter to \<open>toy_arch\<close>).\<close>

definition toy_image :: "real T4" where
  "toy_image = [replicate 3 (replicate 2 (replicate 2 0))]"

text \<open>The model that the constructor builds on these environments with embedding
  dimension 2, two heads, one layer and a codebook of size 4.\<close>

definition toy_layer :: "nat list TransformerSALayer" where
  "toy_layer =
     \<lparr>self_attn = \<lparr>mha_params = new_module (init_MultiheadAttention toy_torch 2 2),
                    num_heads = 2, mha_dropout = 0, mha_training = True\<rparr>,
      linear1 = nn_Linear toy_torch 2 4 True,
      dropout = \<lparr>dropout_p = 0, dropout_training = True\<rparr>,
      linear2 = nn_Linear toy_torch 4 2 True,
      norm1 = nn_LayerNorm toy_torch 2,
      norm2 = nn_LayerNorm toy_torch 2,
      dropout1 = \<lparr>dropout_p = 0, dropout_training = True\<rparr>,
      dropout2 = \<lparr>dropout_p = 0, dropout_training = True\<rparr>,
      activation_f = F_gelu\<rparr>"

definition toy_vqvae :: "nat list VQVAE" where
  "toy_vqvae =
     \<lparr>vq_args = fixed_config 4,
      patch_hws = map (\<lambda>pn. (pn, pn)) [1, 2, 3, 4, 5, 6, 8, 10, 13, 16],
      submodules =
        [(''encoder'', freeze (new_module [(''conv_in.weight'', [160, 3, 3, 3])])),
         (''decoder'', freeze (freeze (new_module [(''conv_out.weight'', [3, 160, 3, 3])]))),
         (''quantize'', freeze (freeze (new_module [(''embedding.weight'', [4, 32])]))),
         (''quant_conv'', freeze (new_module [(''weight'', [32, 32, 3, 3])])),
         (''post_quant_conv'', freeze (freeze (new_module [(''weight'', [32, 32, 3, 3])])))]\<rparr>"

definition toy_self :: "nat list CodeFormer2" where
  "toy_self =
     \<lparr>vqvae = toy_vqvae, connect_list = [''32''], n_layers = 1, dim_embd = 2, dim_mlp = 4,
      position_emb = nn_Parameter (replicate 680 (replicate 2 0)),
      feat_emb = map (\<lambda>(ph, pw). nn_Embedding toy_torch 4 2) (patch_hws toy_vqvae),
      ft_layers = [toy_layer],
      idx_pred_layer = (nn_LayerNorm toy_torch 2, nn_Linear toy_torch 2 4 False)\<rparr>"


section \<open>Properties\<close>

subsection \<open>The result type\<close>

lemma bind_r_Inr_iff: "bind_r m f = Inr y \<longleftrightarrow> (\<exists>x. m = Inr x \<and> f x = Inr y)"
  by (cases m) (simp_all add: bind_r_def)

lemma bind_r_Inl [simp]: "bind_r (Inl e) f = Inl e"
  by (simp add: bind_r_def)

lemma bind_r_Inr [simp]: "bind_r (Inr x) f = f x"
  by (simp add: bind_r_def)

subsection \<open>Construction errors\<close>

text \<open>
  Claim C8. Constructing a \<open>PositionEmbeddingSine\<close> raises exactly when a scale is
  passed while \<open>normalize\<close> is False, and the exception is the ValueError; every other
  combination of arguments gives the object with the arguments stored, and a scale that
  was left out is stored as \<open>2 * pi\<close>.
\<close>

theorem PositionEmbeddingSine_init_raises:
  "((\<exists>e. PositionEmbeddingSine_init n t nrm sc = Inl e) \<longleftrightarrow> (sc \<noteq> None \<and> nrm = False))
   \<and> (sc \<noteq> None \<and> nrm = False \<longrightarrow> PositionEmbeddingSine_init n t nrm sc = Inl ValueError)
   \<and> (\<not> (sc \<noteq> None \<and> nrm = False) \<longrightarrow>
        PositionEmbeddingSine_init n t nrm sc =
          Inr \<lparr>num_pos_feats = n, temperature = t, normalize_f = nrm,
               scale_f = (case sc of None \<Rightarrow> 2 * pi | Some s \<Rightarrow> s)\<rparr>)
   \<and> (sc = None \<longrightarrow> (\<exists>self. PositionEmbeddingSine_init n t nrm sc = Inr self \<and> scale_f self = 2 * pi))"
  by (auto simp: PositionEmbeddingSine_init_def)

theorem PositionEmbeddingSine_init_raises_witness:
  "PositionEmbeddingSine_init 64 10000 False (Some 1) = Inl ValueError
   \<and> (\<exists>self. PositionEmbeddingSine_init 64 10000 False None = Inr self \<and> scale_f self = 2 * pi)
   \<and> (\<exists>self. PositionEmbeddingSine_init 64 10000 True (Some 1) = Inr self \<and> scale_f self = 1)"
  using PositionEmbeddingSine_init_raises [of 64 10000 False "Some 1"]
    PositionEmbeddingSine_init_raises [of 64 10000 False None]
    PositionEmbeddingSine_init_raises [of 64 10000 True "Some 1"]
  by simp

text \<open>
  Claim C9. \<open>_get_activation_fn\<close> raises exactly when the name is none of \<open>relu\<close>,
  \<open>gelu\<close>, \<open>glu\<close>, the names it accepts, and the exception is the RuntimeError; for
  each of the three names it returns the function of that name. Constructing a
  \<open>TransformerSALayer\<close> with any other name yields an exception and no layer.
\<close>

theorem get_activation_fn_raises:
  "((\<exists>e. get_activation_fn a = Inl e) \<longleftrightarrow> a \<notin> {''relu'', ''gelu'', ''glu''})
   \<and> (a \<notin> {''relu'', ''gelu'', ''glu''} \<longrightarrow> get_activation_fn a = Inl RuntimeError)
   \<and> (a = ''relu'' \<longrightarrow> get_activation_fn a = Inr F_relu)
   \<and> (a = ''gelu'' \<longrightarrow> get_activation_fn a = Inr F_gelu)
   \<and> (a = ''glu'' \<longrightarrow> get_activation_fn a = Inr F_glu)
   \<and> (a \<notin> {''relu'', ''gelu'', ''glu''} \<longrightarrow>
        (\<exists>e. TransformerSALayer_init T embed_dim nhead d_mlp q a = Inl e))"
proof -
  have fail: "\<exists>e. TransformerSALayer_init T embed_dim nhead d_mlp q a = Inl e"
    if "get_activation_fn a = Inl RuntimeError"
  proof (cases "TransformerSALayer_init T embed_dim nhead d_mlp q a")
    case (Inl e)
    then show ?thesis by blast
  next
    case (Inr layer)
    then show ?thesis
      using that by (auto simp: TransformerSALayer_init_def Let_def bind_r_Inr_iff)
  qed
  show ?thesis
    using fail by (auto simp: get_activation_fn_def)
qed

theorem get_activation_fn_raises_witness:
  "get_activation_fn ''tanh'' = Inl RuntimeError
   \<and> get_activation_fn ''relu'' = Inr F_relu
   \<and> get_activation_fn ''gelu'' = Inr F_gelu
   \<and> get_activation_fn ''glu'' = Inr F_glu
   \<and> (\<exists>e. TransformerSALayer_init toy_torch 512 8 1024 0 ''tanh'' = Inl e)"
  using get_activation_fn_raises [of "''tanh''" toy_torch 512 8 1024 0]
    get_activation_fn_raises [of "''relu''" toy_torch 512 8 1024 0]
    get_activation_fn_raises [of "''gelu''" toy_torch 512 8 1024 0]
    get_activation_fn_raises [of "''glu''" toy_torch 512 8 1024 0]
  by simp

subsection \<open>Arguments that are not consumed\<close>

text \<open>
  Claim C6. The arguments \<open>w\<close>, \<open>detach_16\<close>, \<open>code_only\<close> and \<open>adain\<close> of
  \<open>CodeFormer2.forward\<close> are not consumed: for every model and input, any two
  assignments of the four give the same result (the same pair, or the same exception).
\<close>

theorem forward_ignores_flags:
  "CodeFormer2_forward T A rng self x w detach_16 code_only adain
     = CodeFormer2_forward T A rng self x w' detach_16' code_only' adain'"
  by (simp add: CodeFormer2_forward_def)

subsection \<open>Construction of the model\<close>

lemma freeze_modules_args:
  "freeze_modules ms s = Inr s' \<Longrightarrow> vq_args s' = vq_args s \<and> patch_hws s' = patch_hws s"
  by (induction ms arbitrary: s) (auto simp: bind_r_Inr_iff)

lemma load_state_dict_args:
  "load_state_dict T s sd = Inr s' \<Longrightarrow> vq_args s' = vq_args s \<and> patch_hws s' = patch_hws s"
  by (auto simp: load_state_dict_def split: if_splits)

lemma VQVAE_init_args:
  "VQVAE_init A cfg = Inr s \<Longrightarrow> vq_args s = cfg \<and> patch_hws s = map (\<lambda>pn. (pn, pn)) (v_patch_nums cfg)"
  by (auto simp: VQVAE_init_def bind_r_Inr_iff)

lemma CodeFormer2_init_Inr:
  assumes "CodeFormer2_init T A d h n V ls conn path = Inr self"
  shows "\<exists>vq0 vq1 vq2 layers.
    VQVAE_init A (fixed_config V) = Inr vq0 \<and>
    (case path of None \<Rightarrow> Inr vq0
      | Some p \<Rightarrow> bind_r (torch_load T p) (load_state_dict T vq0)) = Inr vq1 \<and>
    freeze_modules [''decoder'', ''quantize'', ''post_quant_conv'']
       (vq1\<lparr>submodules := map (\<lambda>(n, m). (n, freeze m)) (submodules vq1)\<rparr>) = Inr vq2 \<and>
    mapM (\<lambda>_. TransformerSALayer_init T d h (d * 2) 0 ''gelu'') [0..<n] = Inr layers \<and>
    self = \<lparr>vqvae = vq2, connect_list = conn, n_layers = n, dim_embd = d, dim_mlp = d * 2,
       position_emb = nn_Parameter (replicate 680 (replicate d 0)),
       feat_emb = map (\<lambda>(ph, pw). nn_Embedding T V d) (patch_hws vq2),
       ft_layers = layers,
       idx_pred_layer = (nn_LayerNorm T d, nn_Linear T d V False)\<rparr>"
  using assms
  unfolding CodeFormer2_init_def fixed_config_def Let_def bind_r_Inr_iff
  by auto

lemma CodeFormer2_init_tokenizer:
  assumes "CodeFormer2_init T A d h n V ls conn path = Inr self"
  shows "vq_args (vqvae self) = fixed_config V"
    and "patch_hws (vqvae self) = map (\<lambda>pn. (pn, pn)) [1, 2, 3, 4, 5, 6, 8, 10, 13, 16]"
proof -
  from CodeFormer2_init_Inr [OF assms] obtain vq0 vq1 vq2 where
    a: "VQVAE_init A (fixed_config V) = Inr vq0"
    and b: "(case path of None \<Rightarrow> Inr vq0
      | Some p \<Rightarrow> bind_r (torch_load T p) (load_state_dict T vq0)) = Inr vq1"
    and c: "freeze_modules [''decoder'', ''quantize'', ''post_quant_conv'']
       (vq1\<lparr>submodules := map (\<lambda>(n, m). (n, freeze m)) (submodules vq1)\<rparr>) = Inr vq2"
    and e: "vqvae self = vq2"
    by auto
  have 0: "vq_args vq0 = fixed_config V \<and> patch_hws vq0 = map (\<lambda>pn. (pn, pn)) (v_patch_nums (fixed_config V))"
    using VQVAE_init_args [OF a] by simp
  have 1: "vq_args vq1 = vq_args vq0 \<and> patch_hws vq1 = patch_hws vq0"
    using b by (auto split: option.splits simp: bind_r_Inr_iff dest: load_state_dict_args)
  have 2: "vq_args vq2 = vq_args vq1 \<and> patch_hws vq2 = patch_hws vq1"
    using freeze_modules_args [OF c] by simp
  show "vq_args (vqvae self) = fixed_config V"
    using 0 1 2 e by simp
  show "patch_hws (vqvae self) = map (\<lambda>pn. (pn, pn)) [1, 2, 3, 4, 5, 6, 8, 10, 13, 16]"
    using 0 1 2 e by (simp add: fixed_config_def)
qed

lemma forward_connect_list:
  "CodeFormer2_forward T A rng (self\<lparr>connect_list := c\<rparr>) x w d16 co ad
     = CodeFormer2_forward T A rng self x w d16 co ad"
  by (simp add: CodeFormer2_forward_def)

lemma init_latent_size:
  "CodeFormer2_init T A d h n V ls conn path = CodeFormer2_init T A d h n V ls' conn path"
  by (simp add: CodeFormer2_init_def)

lemma init_connect_list:
  "CodeFormer2_init T A d h n V ls conn path = Inr self \<Longrightarrow>
   CodeFormer2_init T A d h n V ls' conn' path = Inr (self\<lparr>connect_list := conn'\<rparr>)"
  unfolding CodeFormer2_init_def Let_def bind_r_Inr_iff
  by auto

text \<open>
  Claim C10. The constructor arguments \<open>latent_size\<close> and \<open>connect_list\<close> do not
  influence the forward computation: the constructor's result does not depend on
  \<open>latent_size\<close> at all; the tokenizer is constructed with \<open>z_channels = 32\<close>,
  \<open>ch = 160\<close> and the patch sizes (1, 2, 3, 4, 5, 6, 8, 10, 13, 16) whatever the
  arguments are; and a model built with another \<open>latent_size\<close> and another
  \<open>connect_list\<close> has the same tokenizer and the same forward results on every input.
\<close>

theorem latent_size_connect_list_unused:
  "CodeFormer2_init T A d h n V ls conn path = CodeFormer2_init T A d h n V ls' conn path
   \<and> (\<forall>self. CodeFormer2_init T A d h n V ls conn path = Inr self \<longrightarrow>
        vq_args (vqvae self) =
          \<lparr>vocab_size = V, z_channels = 32, ch = 160, test_mode = False, share_quant_resi = 4,
           v_patch_nums = [1, 2, 3, 4, 5, 6, 8, 10, 13, 16]\<rparr>
        \<and> (\<exists>self'. CodeFormer2_init T A d h n V ls' conn' path = Inr self'
              \<and> vqvae self' = vqvae self
              \<and> CodeFormer2_forward T A rng self' x w d16 co ad
                  = CodeFormer2_forward T A rng self x w d16 co ad))"
proof (intro conjI allI impI)
  show "CodeFormer2_init T A d h n V ls conn path = CodeFormer2_init T A d h n V ls' conn path"
    by (rule init_latent_size)
next
  fix self assume a: "CodeFormer2_init T A d h n V ls conn path = Inr self"
  show "vq_args (vqvae self) =
          \<lparr>vocab_size = V, z_channels = 32, ch = 160, test_mode = False, share_quant_resi = 4,
           v_patch_nums = [1, 2, 3, 4, 5, 6, 8, 10, 13, 16]\<rparr>"
    using CodeFormer2_init_tokenizer(1) [OF a] by (simp add: fixed_config_def)
  show "\<exists>self'. CodeFormer2_init T A d h n V ls' conn' path = Inr self'
              \<and> vqvae self' = vqvae self
              \<and> CodeFormer2_forward T A rng self' x w d16 co ad
                  = CodeFormer2_forward T A rng self x w d16 co ad"
    using init_connect_list [OF a, where ls' = ls' and conn' = conn']
      forward_connect_list [where self = self and c = conn']
    by auto
qed

lemma mapM_set:
  "mapM f xs = Inr ys \<Longrightarrow> y \<in> set ys \<Longrightarrow> \<exists>x \<in> set xs. f x = Inr y"
  by (induction xs arbitrary: ys) (auto simp: bind_r_Inr_iff)

lemma mapM_length: "mapM f xs = Inr ys \<Longrightarrow> length ys = length xs"
  by (induction xs arbitrary: ys) (auto simp: bind_r_Inr_iff)

lemma new_module_requires_grad:
  "q \<in> set (parameters (new_module ws)) \<Longrightarrow> requires_grad q"
  by (auto simp: parameters_def new_module_def nn_Parameter_def)

lemma freeze_frozen: "q \<in> set (parameters (freeze m)) \<Longrightarrow> \<not> requires_grad q"
  by (auto simp: parameters_def freeze_def)

lemma freeze_modules_frozen:
  "freeze_modules ms s = Inr s' \<Longrightarrow>
   \<forall>q \<in> set (VQVAE_parameters s). \<not> requires_grad q \<Longrightarrow>
   \<forall>q \<in> set (VQVAE_parameters s'). \<not> requires_grad q"
proof (induction ms arbitrary: s)
  case Nil
  then show ?case by simp
next
  case (Cons m ms)
  let ?s1 = "s\<lparr>submodules := map (\<lambda>(n, x). if n = m then (n, freeze x) else (n, x)) (submodules s)\<rparr>"
  from Cons.prems(1) have step: "freeze_modules ms ?s1 = Inr s'"
    by (auto simp: bind_r_Inr_iff)
  have "\<forall>q \<in> set (VQVAE_parameters ?s1). \<not> requires_grad q"
    using Cons.prems(2)
    by (fastforce simp: VQVAE_parameters_def dest: freeze_frozen split: if_splits)
  with Cons.IH [OF step] show ?case by blast
qed

lemma freeze_modules_names:
  "freeze_modules ms s = Inr s' \<Longrightarrow> map fst (submodules s') = map fst (submodules s)"
proof (induction ms arbitrary: s)
  case Nil
  then show ?case by simp
next
  case (Cons m ms)
  let ?s1 = "s\<lparr>submodules := map (\<lambda>(n, x). if n = m then (n, freeze x) else (n, x)) (submodules s)\<rparr>"
  from Cons.prems have "freeze_modules ms ?s1 = Inr s'"
    by (auto simp: bind_r_Inr_iff)
  from Cons.IH [OF this] have "map fst (submodules s') = map fst (submodules ?s1)" .
  also have "\<dots> = map fst (submodules s)"
    by (induction "submodules s") (auto split: if_splits)
  finally show ?case .
qed

lemma getattr_names:
  "(\<exists>md. getattr s m = Inr md) \<longleftrightarrow> m \<in> set (map fst (submodules s))"
  by (auto simp: getattr_def map_of_eq_None_iff split: option.splits dest: map_of_SomeD
      intro: rev_image_eqI)

lemma freeze_modules_getattr:
  "freeze_modules ms s = Inr s' \<Longrightarrow> m \<in> set ms \<Longrightarrow> \<exists>md. getattr s' m = Inr md"
proof (induction ms arbitrary: s)
  case Nil
  then show ?case by simp
next
  case (Cons a ms)
  let ?s1 = "s\<lparr>submodules := map (\<lambda>(n, x). if n = a then (n, freeze x) else (n, x)) (submodules s)\<rparr>"
  from Cons.prems(1) obtain md where g: "getattr s a = Inr md" and step: "freeze_modules ms ?s1 = Inr s'"
    by (auto simp: bind_r_Inr_iff)
  show ?case
  proof (cases "m = a")
    case True
    from g have "a \<in> set (map fst (submodules s))"
      using getattr_names [of s a] by blast
    also have "map fst (submodules s) = map fst (submodules s')"
      using freeze_modules_names [OF Cons.prems(1)] by simp
    finally show ?thesis using True getattr_names [of s' a] by blast
  next
    case False
    with Cons.prems(2) have "m \<in> set ms" by simp
    from Cons.IH [OF step this] show ?thesis .
  qed
qed

lemma getattr_parameters:
  "getattr s name = Inr m \<Longrightarrow> set (parameters m) \<subseteq> set (VQVAE_parameters s)"
  by (force simp: getattr_def VQVAE_parameters_def split: option.splits dest: map_of_SomeD)

lemma TransformerSALayer_init_requires_grad:
  "TransformerSALayer_init T e h m p a = Inr layer \<Longrightarrow>
   q \<in> set (TransformerSALayer_parameters layer) \<Longrightarrow> requires_grad q"
  by (auto simp: TransformerSALayer_init_def Let_def bind_r_Inr_iff nn_MultiheadAttention_def
      TransformerSALayer_parameters_def nn_Linear_def nn_LayerNorm_def
      dest: new_module_requires_grad split: if_splits)

text \<open>
  Claim C2. After construction, every parameter of the inherited tokenizer (of every
  sub-module it has, the encoder, decoder, quantizer and the two quantization
  convolutions among them) has \<open>requires_grad = False\<close>, and the position embedding,
  every embedding table, every parameter of every attention block and every parameter of
  the prediction head has \<open>requires_grad = True\<close>. The flags are set by the constructor
  only: \<open>forward\<close> returns its two results and assigns nothing.
\<close>

theorem freezing_policy:
  assumes "CodeFormer2_init T A d h n V ls conn path = Inr self"
  shows "(\<forall>q \<in> set (VQVAE_parameters (vqvae self)). \<not> requires_grad q)
    \<and> (\<forall>name m. getattr (vqvae self) name = Inr m \<longrightarrow> (\<forall>q \<in> set (parameters m). \<not> requires_grad q))
    \<and> (\<forall>name \<in> {''decoder'', ''quantize'', ''post_quant_conv''}. \<exists>m. getattr (vqvae self) name = Inr m)
    \<and> requires_grad (position_emb self)
    \<and> (\<forall>E \<in> set (feat_emb self). requires_grad (weight E))
    \<and> (\<forall>layer \<in> set (ft_layers self). \<forall>q \<in> set (TransformerSALayer_parameters layer). requires_grad q)
    \<and> (\<forall>q \<in> set (parameters (fst (idx_pred_layer self)) @ parameters (snd (idx_pred_layer self))).
          requires_grad q)"
proof -
  from CodeFormer2_init_Inr [OF assms] obtain vq1 vq2 layers where
    c: "freeze_modules [''decoder'', ''quantize'', ''post_quant_conv'']
       (vq1\<lparr>submodules := map (\<lambda>(n, m). (n, freeze m)) (submodules vq1)\<rparr>) = Inr vq2"
    and l: "mapM (\<lambda>_. TransformerSALayer_init T d h (d * 2) 0 ''gelu'') [0..<n] = Inr layers"
    and s: "self = \<lparr>vqvae = vq2, connect_list = conn, n_layers = n, dim_embd = d, dim_mlp = d * 2,
       position_emb = nn_Parameter (replicate 680 (replicate d 0)),
       feat_emb = map (\<lambda>(ph, pw). nn_Embedding T V d) (patch_hws vq2),
       ft_layers = layers,
       idx_pred_layer = (nn_LayerNorm T d, nn_Linear T d V False)\<rparr>"
    by blast
  have "\<forall>q \<in> set (VQVAE_parameters (vq1\<lparr>submodules := map (\<lambda>(n, m). (n, freeze m)) (submodules vq1)\<rparr>)).
          \<not> requires_grad q"
    by (auto simp: VQVAE_parameters_def dest: freeze_frozen)
  from freeze_modules_frozen [OF c this]
  have frozen: "\<forall>q \<in> set (VQVAE_parameters vq2). \<not> requires_grad q" .
  have 1: "\<forall>q \<in> set (VQVAE_parameters (vqvae self)). \<not> requires_grad q"
    using frozen s by simp
  have 2: "\<forall>name m. getattr (vqvae self) name = Inr m \<longrightarrow> (\<forall>q \<in> set (parameters m). \<not> requires_grad q)"
    using 1 getattr_parameters by blast
  have 3: "\<forall>name \<in> {''decoder'', ''quantize'', ''post_quant_conv''}. \<exists>m. getattr (vqvae self) name = Inr m"
    using freeze_modules_getattr [OF c] s by simp
  have 4: "requires_grad (position_emb self)"
    using s by (simp add: nn_Parameter_def)
  have 5: "\<forall>E \<in> set (feat_emb self). requires_grad (weight E)"
    using s by (auto simp: nn_Embedding_def nn_Parameter_def)
  have 6: "\<forall>layer \<in> set (ft_layers self). \<forall>q \<in> set (TransformerSALayer_parameters layer). requires_grad q"
    using s mapM_set [OF l] TransformerSALayer_init_requires_grad by fastforce
  have 7: "\<forall>q \<in> set (parameters (fst (idx_pred_layer self)) @ parameters (snd (idx_pred_layer self))).
          requires_grad q"
    using s by (auto simp: nn_LayerNorm_def nn_Linear_def dest: new_module_requires_grad)
  from 1 2 3 4 5 6 7 show ?thesis by blast
qed


subsection \<open>The concrete model\<close>

lemma toy_layer_init:
  "TransformerSALayer_init toy_torch 2 2 4 0 ''gelu'' = Inr toy_layer"
  by (simp add: TransformerSALayer_init_def nn_MultiheadAttention_def nn_Dropout_def
      get_activation_fn_def toy_layer_def)

lemma toy_vqvae_init:
  "VQVAE_init toy_arch (fixed_config 4) =
     Inr \<lparr>vq_args = fixed_config 4,
      patch_hws = map (\<lambda>pn. (pn, pn)) [1, 2, 3, 4, 5, 6, 8, 10, 13, 16],
      submodules =
        [(''encoder'', new_module [(''conv_in.weight'', [160, 3, 3, 3])]),
         (''decoder'', new_module [(''conv_out.weight'', [3, 160, 3, 3])]),
         (''quantize'', new_module [(''embedding.weight'', [4, 32])]),
         (''quant_conv'', new_module [(''weight'', [32, 32, 3, 3])]),
         (''post_quant_conv'', new_module [(''weight'', [32, 32, 3, 3])])]\<rparr>"
  by (simp add: VQVAE_init_def toy_arch_def fixed_config_def)

lemma toy_freeze:
  "freeze_modules [''decoder'', ''quantize'', ''post_quant_conv'']
     (\<lparr>vq_args = fixed_config 4,
      patch_hws = map (\<lambda>pn. (pn, pn)) [1, 2, 3, 4, 5, 6, 8, 10, 13, 16],
      submodules =
        [(''encoder'', freeze (new_module [(''conv_in.weight'', [160, 3, 3, 3])])),
         (''decoder'', freeze (new_module [(''conv_out.weight'', [3, 160, 3, 3])])),
         (''quantize'', freeze (new_module [(''embedding.weight'', [4, 32])])),
         (''quant_conv'', freeze (new_module [(''weight'', [32, 32, 3, 3])])),
         (''post_quant_conv'', freeze (new_module [(''weight'', [32, 32, 3, 3])]))]\<rparr>) = Inr toy_vqvae"
  by (simp add: getattr_def toy_vqvae_def)

lemma toy_self_init:
  "CodeFormer2_init toy_torch toy_arch 2 2 1 4 32 [''32''] None = Inr toy_self"
  unfolding CodeFormer2_init_def fixed_config_def [symmetric] toy_vqvae_init
  by (simp add: getattr_def toy_vqvae_def toy_layer_init toy_self_def Let_def)

lemma toy_self_nonempty:
  "VQVAE_parameters (vqvae toy_self) \<noteq> []" "feat_emb toy_self \<noteq> []" "ft_layers toy_self \<noteq> []"
  by (simp_all add: toy_self_def toy_vqvae_def VQVAE_parameters_def parameters_def new_module_def
      freeze_def)

theorem freezing_policy_witness:
  "CodeFormer2_init toy_torch toy_arch 2 2 1 4 32 [''32''] None = Inr toy_self
     \<and> VQVAE_parameters (vqvae toy_self) \<noteq> []
     \<and> list_all (\<lambda>q. \<not> requires_grad q) (VQVAE_parameters (vqvae toy_self))
     \<and> (\<exists>m. getattr (vqvae toy_self) ''decoder'' = Inr m)
     \<and> requires_grad (position_emb toy_self)
     \<and> feat_emb toy_self \<noteq> [] \<and> list_all (\<lambda>E. requires_grad (weight E)) (feat_emb toy_self)
     \<and> ft_layers toy_self \<noteq> []
     \<and> list_all (\<lambda>layer. list_all requires_grad (TransformerSALayer_parameters layer))
           (ft_layers toy_self)"
  using freezing_policy [OF toy_self_init] toy_self_nonempty toy_self_init
  by (simp add: list_all_iff)

theorem latent_size_connect_list_unused_witness:
  "CodeFormer2_init toy_torch toy_arch 2 2 1 4 32 [''32''] None = Inr toy_self
     \<and> z_channels (vq_args (vqvae toy_self)) = 32 \<and> ch (vq_args (vqvae toy_self)) = 160
     \<and> v_patch_nums (vq_args (vqvae toy_self)) = [1, 2, 3, 4, 5, 6, 8, 10, 13, 16]
     \<and> (\<exists>self'. CodeFormer2_init toy_torch toy_arch 2 2 1 4 16 [] None = Inr self'
           \<and> CodeFormer2_forward toy_torch toy_arch 0 self' toy_image 0 True False False
               = CodeFormer2_forward toy_torch toy_arch 0 toy_self toy_image 0 True False False)"
proof -
  note t = latent_size_connect_list_unused [of toy_torch toy_arch 2 2 1 4 32 "[''32'']" None 16 "[]"
      0 toy_image 0 True False False]
  from t [THEN conjunct2, rule_format, OF toy_self_init] toy_self_init
  show ?thesis by auto
qed

subsection \<open>Shapes\<close>

lemma has_shape2_iff: "has_shape2 t (a, b) \<longleftrightarrow> length t = a \<and> (\<forall>r \<in> set t. length r = b)"
  by (simp add: has_shape2_def list_all_iff)

lemma has_shape3_iff:
  "has_shape3 t (a, b, c) \<longleftrightarrow> length t = a \<and> (\<forall>r \<in> set t. has_shape2 r (b, c))"
  by (simp add: has_shape3_def list_all_iff)

lemma has_shape4_iff:
  "has_shape4 t (a, b, c, d) \<longleftrightarrow> length t = a \<and> (\<forall>r \<in> set t. has_shape3 r (b, c, d))"
  by (simp add: has_shape4_def list_all_iff)

lemma mapM_list_all2: "mapM f xs = Inr ys \<longleftrightarrow> list_all2 (\<lambda>x y. f x = Inr y) xs ys"
proof (induction xs arbitrary: ys)
  case Nil
  then show ?case by auto
next
  case (Cons x xs)
  then show ?case
    by (cases ys) (auto simp: bind_r_Inr_iff)
qed

lemma mapM_total:
  assumes "\<forall>x \<in> set xs. \<exists>y. f x = Inr y \<and> P y"
  shows "\<exists>ys. mapM f xs = Inr ys \<and> length ys = length xs \<and> (\<forall>y \<in> set ys. P y)"
  using assms
proof (induction xs)
  case Nil
  then show ?case by simp
next
  case (Cons x xs)
  then obtain y ys where "f x = Inr y" "P y" "mapM f xs = Inr ys" "length ys = length xs"
    "\<forall>y \<in> set ys. P y"
    by auto
  then show ?case by simp
qed

lemma bcast_same:
  assumes "length xs = length ys"
    and "\<forall>(x, y) \<in> set (zip xs ys). \<exists>z. f x y = Inr z \<and> P z"
  shows "\<exists>zs. bcast f xs ys = Inr zs \<and> length zs = length xs \<and> (\<forall>z \<in> set zs. P z)"
proof -
  have "\<forall>q \<in> set (zip xs ys). \<exists>z. (case q of (x, y) \<Rightarrow> f x y) = Inr z \<and> P z"
    using assms(2) by auto
  from mapM_total [OF this] assms(1) show ?thesis
    by (auto simp: bcast_def)
qed

lemma tadd1_shape:
  "length x = n \<Longrightarrow> length y = n \<Longrightarrow> \<exists>z. tadd1 x y = Inr z \<and> length z = n"
  using bcast_same [of x y "\<lambda>a b. Inr (a + b)" "\<lambda>_. True"]
  by (auto simp: tadd1_def)

lemma tadd2_shape:
  assumes "has_shape2 x (a, b)" "has_shape2 y (a, b)"
  shows "\<exists>z. tadd2 x y = Inr z \<and> has_shape2 z (a, b)"
proof -
  have "\<forall>(u, v) \<in> set (zip x y). \<exists>z. tadd1 u v = Inr z \<and> length z = b"
  proof (clarify)
    fix u v assume "(u, v) \<in> set (zip x y)"
    then have "u \<in> set x" "v \<in> set y"
      by (auto dest: set_zip_leftD set_zip_rightD)
    with assms have "length u = b" "length v = b"
      by (auto simp: has_shape2_iff)
    then show "\<exists>z. tadd1 u v = Inr z \<and> length z = b"
      by (rule tadd1_shape)
  qed
  from bcast_same [OF _ this] assms show ?thesis
    by (auto simp: tadd2_def has_shape2_iff)
qed

lemma tadd3_shape:
  assumes "has_shape3 x (a, b, c)" "has_shape3 y (a, b, c)"
  shows "\<exists>z. tadd3 x y = Inr z \<and> has_shape3 z (a, b, c)"
proof -
  have "\<forall>(u, v) \<in> set (zip x y). \<exists>z. tadd2 u v = Inr z \<and> has_shape2 z (b, c)"
  proof (clarify)
    fix u v assume "(u, v) \<in> set (zip x y)"
    then have "u \<in> set x" "v \<in> set y"
      by (auto dest: set_zip_leftD set_zip_rightD)
    with assms have "has_shape2 u (b, c)" "has_shape2 v (b, c)"
      by (auto simp: has_shape3_iff)
    then show "\<exists>z. tadd2 u v = Inr z \<and> has_shape2 z (b, c)"
      by (rule tadd2_shape)
  qed
  from bcast_same [OF _ this] assms show ?thesis
    by (auto simp: tadd3_def has_shape3_iff)
qed

subsection \<open>One attention block\<close>

lemma weights_new_module: "weights (new_module ws) = map snd ws"
  by (induction ws) (auto simp: weights_def new_module_def nn_Parameter_def)

lemma Dropout_forward_off: "dropout_off d \<Longrightarrow> Dropout_forward T rng d x = x"
  by (auto simp: dropout_off_def Dropout_forward_def)

lemma MultiheadAttention_forward_off:
  "mha_dropout m \<le> 0 \<or> \<not> mha_training m \<Longrightarrow>
   MultiheadAttention_forward T rng m q k v am kpm =
     multi_head_attention T (weights (mha_params m)) (num_heads m) q k v am kpm"
  by (auto simp: MultiheadAttention_forward_def Let_def)

lemma forward_is_spec:
  assumes "dropout_inactive layer"
  shows "TransformerSALayer_forward T rng layer tgt am kpm query_pos
           = sa_layer_spec T layer tgt am kpm query_pos"
  using assms
  unfolding TransformerSALayer_forward_def sa_layer_spec_def dropout_inactive_def with_pos_embed_def Let_def
  by (simp add: Dropout_forward_off MultiheadAttention_forward_off)

lemma TransformerSALayer_init_Inr:
  assumes "TransformerSALayer_init T e h m q a = Inr layer"
  shows "\<exists>act. get_activation_fn a = Inr act \<and> 0 < h \<and> (e div h) * h = e \<and> 0 \<le> q \<and> q \<le> 1 \<and>
     layer = \<lparr>self_attn = \<lparr>mha_params = new_module (init_MultiheadAttention T e h),
                    num_heads = h, mha_dropout = q, mha_training = True\<rparr>,
      linear1 = nn_Linear T e m True,
      dropout = \<lparr>dropout_p = q, dropout_training = True\<rparr>,
      linear2 = nn_Linear T m e True,
      norm1 = nn_LayerNorm T e,
      norm2 = nn_LayerNorm T e,
      dropout1 = \<lparr>dropout_p = q, dropout_training = True\<rparr>,
      dropout2 = \<lparr>dropout_p = q, dropout_training = True\<rparr>,
      activation_f = act\<rparr>"
  using assms
  unfolding TransformerSALayer_init_def Let_def bind_r_Inr_iff nn_MultiheadAttention_def nn_Dropout_def
  by (auto split: if_splits)

lemma init_dropout_inactive:
  "TransformerSALayer_init T e h m 0 a = Inr layer \<Longrightarrow> dropout_inactive layer"
  by (drule TransformerSALayer_init_Inr) (auto simp: dropout_inactive_def dropout_off_def)

lemma spec_shape:
  assumes ok: "torch_ok T"
    and init: "TransformerSALayer_init T e h m q a = Inr layer"
    and act: "a = ''relu'' \<or> a = ''gelu''"
    and tgt: "has_shape3 tgt (n, b, e)"
    and pos: "query_pos = None \<or> (\<exists>bias. query_pos = Some bias \<and> has_shape3 bias (n, b, e))"
  shows "\<exists>out. sa_layer_spec T layer tgt None None query_pos = Inr out \<and> has_shape3 out (n, b, e)"
proof -
  from TransformerSALayer_init_Inr [OF init] obtain actf where
    a: "get_activation_fn a = Inr actf" and h: "0 < h" "(e div h) * h = e"
    and w: "weights (norm1 layer) = map snd (init_LayerNorm T e)"
      "weights (norm2 layer) = map snd (init_LayerNorm T e)"
      "weights (linear1 layer) = map snd (init_Linear T e m True)"
      "weights (linear2 layer) = map snd (init_Linear T m e True)"
      "weights (mha_params (self_attn layer)) = map snd (init_MultiheadAttention T e h)"
      "num_heads (self_attn layer) = h"
      "activation_f layer = actf"
    by (auto simp: weights_new_module nn_Linear_def nn_LayerNorm_def)
  from ok have ln: "LayerNorm_ok T" and lin: "Linear_ok T" and mha: "MultiheadAttention_ok T"
    and av: "activations_ok T"
    by (simp_all add: torch_ok_def)
  from ln tgt obtain n1 where n1: "layer_norm T (map snd (init_LayerNorm T e)) tgt = Inr n1"
    "has_shape3 n1 (n, b, e)"
    unfolding LayerNorm_ok_def by blast
  have "\<exists>qk. (case query_pos of None \<Rightarrow> Inr n1 | Some bias \<Rightarrow> tadd3 n1 bias) = Inr qk
           \<and> has_shape3 qk (n, b, e)"
  proof (cases query_pos)
    case None
    then show ?thesis using n1(2) by simp
  next
    case (Some bias)
    with pos have "has_shape3 bias (n, b, e)" by simp
    from tadd3_shape [OF n1(2) this] Some show ?thesis by simp
  qed
  then obtain qk where qk:
    "(case query_pos of None \<Rightarrow> Inr n1 | Some bias \<Rightarrow> tadd3 n1 bias) = Inr qk"
    "has_shape3 qk (n, b, e)"
    by blast
  from mha h qk(2) n1(2) obtain att wts where att:
    "multi_head_attention T (map snd (init_MultiheadAttention T e h)) h qk qk n1 None None
       = Inr (att, wts)" "has_shape3 att (n, b, e)"
    unfolding MultiheadAttention_ok_def by blast
  from tadd3_shape [OF tgt att(2)] obtain r1 where r1: "tadd3 tgt att = Inr r1"
    "has_shape3 r1 (n, b, e)"
    by blast
  from ln r1(2) obtain n2 where n2: "layer_norm T (map snd (init_LayerNorm T e)) r1 = Inr n2"
    "has_shape3 n2 (n, b, e)"
    unfolding LayerNorm_ok_def by blast
  from lin n2(2) obtain hh where hh: "linear T (map snd (init_Linear T e m True)) n2 = Inr hh"
    "has_shape3 hh (n, b, m)"
    unfolding Linear_ok_def by blast
  from a act have "actf = F_relu \<or> actf = F_gelu"
    by (auto simp: get_activation_fn_def)
  with av hh(2) obtain g where g: "apply_activation T actf hh = Inr g" "has_shape3 g (n, b, m)"
    unfolding activations_ok_def apply_activation_def by (metis activation.simps(7,8))
  from lin g(2) obtain f where f: "linear T (map snd (init_Linear T m e True)) g = Inr f"
    "has_shape3 f (n, b, e)"
    unfolding Linear_ok_def by blast
  from tadd3_shape [OF r1(2) f(2)] obtain out where out: "tadd3 r1 f = Inr out"
    "has_shape3 out (n, b, e)"
    by blast
  have "sa_layer_spec T layer tgt None None query_pos = Inr out"
    unfolding sa_layer_spec_def
    by (simp add: w n1 qk att r1 n2 hh g f out)
  with out(2) show ?thesis by blast
qed

subsection \<open>The attention stack\<close>

lemma run_layers_rng:
  "\<forall>layer \<in> set ls. dropout_inactive layer \<Longrightarrow>
   run_layers T rng ls pos q = run_layers T rng' ls pos q"
proof (induction ls arbitrary: q)
  case Nil
  then show ?case by simp
next
  case (Cons l ls)
  then have "TransformerSALayer_forward T rng l q None None (Some pos)
      = TransformerSALayer_forward T rng' l q None None (Some pos)"
    by (simp add: forward_is_spec)
  moreover have "run_layers T rng ls pos = run_layers T rng' ls pos"
    using Cons by auto
  ultimately show ?case by simp
qed

lemma init_layers:
  assumes "CodeFormer2_init T A d h n V ls conn path = Inr self"
  shows "\<forall>layer \<in> set (ft_layers self).
           TransformerSALayer_init T d h (d * 2) 0 ''gelu'' = Inr layer"
    and "length (ft_layers self) = n"
proof -
  from CodeFormer2_init_Inr [OF assms] obtain layers where
    l: "mapM (\<lambda>_. TransformerSALayer_init T d h (d * 2) 0 ''gelu'') [0..<n] = Inr layers"
    and s: "ft_layers self = layers"
    by auto
  show "\<forall>layer \<in> set (ft_layers self).
           TransformerSALayer_init T d h (d * 2) 0 ''gelu'' = Inr layer"
    using mapM_set [OF l] s by auto
  show "length (ft_layers self) = n"
    using mapM_length [OF l] s by simp
qed

text \<open>
  Claim C5. The constructor gives every attention block the dropout probability 0 (in the
  attention and in its three dropout modules), and the forward pass of the constructed
  model is then deterministic: whatever the state of the random number generator, the
  same input gives the same result. The forward pass returns its two results and assigns
  nothing of the model.
\<close>

theorem forward_deterministic:
  assumes "CodeFormer2_init T A d h n V ls conn path = Inr self"
  shows "(\<forall>layer \<in> set (ft_layers self).
            mha_dropout (self_attn layer) = 0 \<and> dropout_p (dropout layer) = 0
            \<and> dropout_p (dropout1 layer) = 0 \<and> dropout_p (dropout2 layer) = 0)
    \<and> CodeFormer2_forward T A rng self x w d16 co ad
        = CodeFormer2_forward T A rng' self x w d16 co ad"
proof
  show "\<forall>layer \<in> set (ft_layers self).
            mha_dropout (self_attn layer) = 0 \<and> dropout_p (dropout layer) = 0
            \<and> dropout_p (dropout1 layer) = 0 \<and> dropout_p (dropout2 layer) = 0"
    using init_layers(1) [OF assms] by (auto dest!: bspec TransformerSALayer_init_Inr)
  have "\<forall>layer \<in> set (ft_layers self). dropout_inactive layer"
    using init_layers(1) [OF assms] init_dropout_inactive by blast
  then have "\<And>pos q. run_layers T rng (ft_layers self) pos q = run_layers T rng' (ft_layers self) pos q"
    by (rule run_layers_rng)
  then show "CodeFormer2_forward T A rng self x w d16 co ad
        = CodeFormer2_forward T A rng' self x w d16 co ad"
    by (simp add: CodeFormer2_forward_def)
qed

theorem forward_deterministic_witness:
  "CodeFormer2_init toy_torch toy_arch 2 2 1 4 32 [''32''] None = Inr toy_self
   \<and> ft_layers toy_self \<noteq> []
   \<and> list_all (\<lambda>layer. mha_dropout (self_attn layer) = 0 \<and> dropout_p (dropout layer) = 0
        \<and> dropout_p (dropout1 layer) = 0 \<and> dropout_p (dropout2 layer) = 0) (ft_layers toy_self)
   \<and> CodeFormer2_forward toy_torch toy_arch 0 toy_self toy_image 0 True False False
        = CodeFormer2_forward toy_torch toy_arch 1 toy_self toy_image 0 True False False"
  using forward_deterministic [OF toy_self_init, of 0 toy_image 0 True False False 1]
    toy_self_init toy_self_nonempty(3)
  by (simp add: list_all_iff)

subsection \<open>The steps of one attention block\<close>







lemma toy_torch_ok: "torch_ok toy_torch"
proof -
  have "LayerNorm_ok toy_torch"
    by (simp add: LayerNorm_ok_def toy_torch_def)
  moreover have "Linear_ok toy_torch"
    unfolding Linear_ok_def
  proof (intro allI impI)
    fix i o_f bias and x :: "real T3" and a b
    assume x: "has_shape3 x (a, b, i)"
    then have chk: "list_all (list_all (\<lambda>v. length v = i)) x"
      by (auto simp: has_shape3_iff has_shape2_iff list_all_iff)
    have "has_shape3 (map (map (\<lambda>v. replicate o_f (sum_list v))) x) (a, b, o_f)"
      using x by (auto simp: has_shape3_iff has_shape2_iff)
    with chk show "\<exists>y. linear toy_torch (map snd (init_Linear toy_torch i o_f bias)) x = Inr y
        \<and> has_shape3 y (a, b, o_f)"
      by (simp add: toy_torch_def toy_linear_def)
  qed
  moreover have "MultiheadAttention_ok toy_torch"
    by (simp add: MultiheadAttention_ok_def toy_torch_def)
  moreover have "activations_ok toy_torch"
    by (auto simp: activations_ok_def toy_torch_def has_shape3_iff has_shape2_iff)
  moreover have "Embedding_ok toy_torch"
    by (simp add: Embedding_ok_def toy_torch_def has_shape2_iff)
  ultimately show ?thesis
    by (simp add: torch_ok_def)
qed



subsection \<open>The token-embedding sequence\<close>

lemma embed_loop_nth:
  "embed_loop fe k idxs = Inr es \<Longrightarrow>
   length es = length idxs \<and>
   (\<forall>i < length idxs. k + i < length fe \<and> Embedding_forward (fe ! (k + i)) (idxs ! i) = Inr (es ! i))"
proof (induction idxs arbitrary: k es)
  case Nil
  then show ?case by simp
next
  case (Cons idx rest)
  from Cons.prems obtain e es' where k: "k < length fe"
    and e: "Embedding_forward (fe ! k) idx = Inr e"
    and r: "embed_loop fe (Suc k) rest = Inr es'" and es: "es = e # es'"
    by (auto simp: bind_r_Inr_iff split: if_splits)
  from Cons.IH [OF r] have ih: "length es' = length rest"
    "\<forall>i < length rest. Suc k + i < length fe \<and> Embedding_forward (fe ! (Suc k + i)) (rest ! i) = Inr (es' ! i)"
    by auto
  show ?case
  proof (intro conjI allI impI)
    show "length es = length (idx # rest)" using ih(1) es by simp
  next
    fix i assume "i < length (idx # rest)"
    then show "k + i < length fe" using k ih(2) by (cases i) auto
  next
    fix i assume "i < length (idx # rest)"
    then show "Embedding_forward (fe ! (k + i)) ((idx # rest) ! i) = Inr (es ! i)"
      using e es ih(2) by (cases i) auto
  qed
qed

lemma Embedding_forward_shape:
  assumes "Embedding_forward E idx = Inr e" and "has_shape2 idx (B, n)"
  shows "length e = B" and "\<forall>r \<in> set e. length r = n"
proof -
  let ?f = "\<lambda>k. if k < length (data (weight E)) then Inr (data (weight E) ! k) else Inl IndexError"
  from assms(1) have l: "list_all2 (\<lambda>x y. mapM ?f x = Inr y) idx e"
    by (simp add: Embedding_forward_def Let_def mapM_list_all2)
  then show "length e = B"
    using assms(2) by (auto simp: has_shape2_iff dest: list_all2_lengthD)
  show "\<forall>r \<in> set e. length r = n"
  proof
    fix r assume "r \<in> set e"
    then obtain j where j: "j < length e" "r = e ! j"
      by (auto simp: in_set_conv_nth)
    with l have "mapM ?f (idx ! j) = Inr r" "j < length idx"
      by (auto simp: list_all2_conv_all_nth)
    then have "length r = length (idx ! j)" "idx ! j \<in> set idx"
      by (auto dest: mapM_length)
    with assms(2) show "length r = n"
      by (auto simp: has_shape2_iff)
  qed
qed

lemma concat_nth_offset:
  "i < length xss \<Longrightarrow> t < length (xss ! i) \<Longrightarrow>
   concat xss ! (sum_list (map length (take i xss)) + t) = xss ! i ! t"
proof (induction xss arbitrary: i)
  case Nil
  then show ?case by simp
next
  case (Cons xs xss)
  show ?case
  proof (cases i)
    case 0
    with Cons.prems show ?thesis by (simp add: nth_append)
  next
    case (Suc j)
    with Cons.prems have "concat xss ! (sum_list (map length (take j xss)) + t) = xss ! j ! t"
      using Cons.IH [of j] by simp
    with Suc show ?thesis
      by (simp add: nth_append add.assoc)
  qed
qed

lemma total_tokens_take:
  "i < length hws \<Longrightarrow> total_tokens (take i hws) + token_count (hws ! i) \<le> total_tokens hws"
proof -
  assume i: "i < length hws"
  have "total_tokens hws = total_tokens (take i hws) + total_tokens (drop i hws)"
    unfolding total_tokens_def
    by (metis append_take_drop_id map_append sum_list.append)
  moreover have "drop i hws = hws ! i # drop (Suc i) hws"
    using i by (simp add: Cons_nth_drop_Suc)
  ultimately show ?thesis
    by (simp add: total_tokens_def)
qed

lemma permute102_nonempty:
  "t \<noteq> [] \<Longrightarrow> permute102 t = map (\<lambda>j. map (\<lambda>row. row ! j) t) [0..<length (t ! 0)]"
  by (cases t) (simp_all add: permute102_def)

text \<open>
  Claim C4. For a pyramid whose level \<open>i\<close> has shape (B, ph * pw), the
  sequence that lines 232-235 of \<open>forward\<close> build keeps the order of the pyramid: level
  \<open>i\<close> is embedded by the table \<open>feat_emb[i]\<close>, and its embedded tokens are exactly
  the slice of the sequence that starts at the sum of the token counts of the levels
  before \<open>i\<close> and has length ph * pw (in the layout (sequence, batch, dim) of the
  sequence); the sequence has the total token count as its length.
\<close>

theorem pyramid_order:
  assumes pyr: "list_all2 (\<lambda>idx hw. has_shape2 idx (B, token_count hw)) idx_list hws"
    and B: "0 < B"
    and emb: "embed_tokens fe idx_list = Inr seq"
    and i: "i < length idx_list"
  shows "i < length fe
    \<and> (\<exists>e. Embedding_forward (fe ! i) (idx_list ! i) = Inr e
          \<and> take (token_count (hws ! i)) (drop (total_tokens (take i hws)) seq) = permute102 e)
    \<and> length seq = total_tokens hws"
proof -
  from emb obtain es c where es: "embed_loop fe 0 idx_list = Inr es"
    and c: "torch_cat1 es = Inr c" and seq: "seq = permute102 c"
    by (auto simp: embed_tokens_def bind_r_Inr_iff)
  from embed_loop_nth [OF es] have len: "length es = length idx_list"
    and el: "\<And>j. j < length idx_list \<Longrightarrow> j < length fe \<and> Embedding_forward (fe ! j) (idx_list ! j) = Inr (es ! j)"
    by auto
  from pyr have lh: "length hws = length idx_list"
    and sh: "\<And>j. j < length idx_list \<Longrightarrow> has_shape2 (idx_list ! j) (B, token_count (hws ! j))"
    by (auto simp: list_all2_conv_all_nth)
  have eB: "\<And>j. j < length idx_list \<Longrightarrow> length (es ! j) = B"
    using el sh Embedding_forward_shape(1) by blast
  have eN: "\<And>j b. j < length idx_list \<Longrightarrow> b < B \<Longrightarrow> length (es ! j ! b) = token_count (hws ! j)"
  proof -
    fix j b assume j: "j < length idx_list" and b: "b < B"
    then have "es ! j ! b \<in> set (es ! j)" using eB by simp
    then show "length (es ! j ! b) = token_count (hws ! j)"
      using el [OF j] sh [OF j] Embedding_forward_shape(2) by blast
  qed
  from i len have ne: "es \<noteq> []" by auto
  then have hd: "hd es = es ! 0" by (simp add: hd_conv_nth)
  from c have cdef: "c = map (\<lambda>b. concat (map (\<lambda>u. u ! b) es)) [0..<length (hd es)]"
    by (auto simp: torch_cat1_def split: if_splits)
  from i have "0 < length idx_list" by (cases idx_list) auto
  from eB [OF this] hd have "length (hd es) = B" by simp
  with cdef have lc: "length c = B"
    and cb: "\<And>b. b < B \<Longrightarrow> c ! b = concat (map (\<lambda>u. u ! b) es)"
    by auto
  have lens: "\<And>b. b < B \<Longrightarrow> map length (map (\<lambda>u. u ! b) es) = map token_count hws"
    by (rule nth_equalityI) (auto simp: len lh eN)
  have lcb: "\<And>b. b < B \<Longrightarrow> length (c ! b) = total_tokens hws"
    using lens by (simp add: cb length_concat total_tokens_def)
  from lc B have cne: "c \<noteq> []" by auto
  have seq': "seq = map (\<lambda>j. map (\<lambda>row. row ! j) c) [0..<total_tokens hws]"
    using permute102_nonempty [OF cne] lcb [OF B] seq by simp
  let ?off = "total_tokens (take i hws)" and ?n = "token_count (hws ! i)"
  from i lh have bound: "?off + ?n \<le> total_tokens hws"
    using total_tokens_take [of i hws] by simp
  have slice: "take ?n (drop ?off seq) = map (\<lambda>t. map (\<lambda>row. row ! (?off + t)) c) [0..<?n]"
  proof (rule nth_equalityI)
    show "length (take ?n (drop ?off seq)) = length (map (\<lambda>t. map (\<lambda>row. row ! (?off + t)) c) [0..<?n])"
      using bound by (simp add: seq')
  next
    fix t assume "t < length (take ?n (drop ?off seq))"
    then have t: "t < ?n" by simp
    with bound have "?off + t < total_tokens hws" by simp
    then show "take ?n (drop ?off seq) ! t = map (\<lambda>t. map (\<lambda>row. row ! (?off + t)) c) [0..<?n] ! t"
      using t by (simp add: seq')
  qed
  let ?e = "es ! i"
  have ene: "?e \<noteq> []" using eB [OF i] B by auto
  have "length (?e ! 0) = ?n" using eN [OF i B] .
  with permute102_nonempty [OF ene]
  have pe: "permute102 ?e = map (\<lambda>t. map (\<lambda>row. row ! t) ?e) [0..<?n]" by simp
  have "map (\<lambda>t. map (\<lambda>row. row ! (?off + t)) c) [0..<?n] = map (\<lambda>t. map (\<lambda>row. row ! t) ?e) [0..<?n]"
  proof (rule map_cong [OF refl])
    fix t assume "t \<in> set [0..<?n]"
    then have t: "t < ?n" by simp
    show "map (\<lambda>row. row ! (?off + t)) c = map (\<lambda>row. row ! t) ?e"
    proof (rule nth_equalityI)
      show "length (map (\<lambda>row. row ! (?off + t)) c) = length (map (\<lambda>row. row ! t) ?e)"
        using lc eB [OF i] by simp
    next
      fix b assume "b < length (map (\<lambda>row. row ! (?off + t)) c)"
      then have b: "b < B" using lc by simp
      let ?xss = "map (\<lambda>u. u ! b) es"
      have o: "?off = sum_list (map length (take i ?xss))"
        using lens [OF b] by (simp add: total_tokens_def take_map [symmetric])
      have "i < length ?xss" "t < length (?xss ! i)"
        using i len t eN [OF i b] by simp_all
      from concat_nth_offset [OF this] have "concat ?xss ! (?off + t) = ?e ! b ! t"
        using o i len by simp
      then show "map (\<lambda>row. row ! (?off + t)) c ! b = map (\<lambda>row. row ! t) ?e ! b"
        using b lc eB [OF i] cb [OF b] by simp
    qed
  qed
  with slice pe have "take ?n (drop ?off seq) = permute102 ?e" by simp
  moreover have "length seq = total_tokens hws" by (simp add: seq')
  ultimately show ?thesis
    using el [OF i] by blast
qed


theorem pyramid_order_witness:
  "list_all2 (\<lambda>idx hw. has_shape2 idx (1, token_count hw)) [[[1]], [[0, 1, 1, 0]]] [(1, 1), (2, 2)]
   \<and> embed_tokens [\<lparr>weight = nn_Parameter [[10], [11]]\<rparr>, \<lparr>weight = nn_Parameter [[20], [21]]\<rparr>]
         [[[1]], [[0, 1, 1, 0]]] = Inr [[[11]], [[20]], [[21]], [[21]], [[20]]]
   \<and> Embedding_forward \<lparr>weight = nn_Parameter [[20], [21]]\<rparr> [[0, 1, 1, 0]] = Inr [[[20], [21], [21], [20]]]
   \<and> take (token_count (2, 2)) (drop (total_tokens [(1, 1)]) [[[11]], [[20]], [[21]], [[21]], [[20 :: real]]])
        = permute102 [[[20], [21], [21], [20]]]
   \<and> length [[[11]], [[20]], [[21]], [[21]], [[20 :: real]]] = total_tokens [(1, 1), (2, 2)]"
proof -
  have p: "list_all2 (\<lambda>idx hw. has_shape2 idx (1, token_count hw)) [[[1]], [[0, 1, 1, 0]]] [(1, 1), (2, 2)]"
    by (simp add: has_shape2_def token_count_def)
  have e: "embed_tokens [\<lparr>weight = nn_Parameter [[10], [11]]\<rparr>, \<lparr>weight = nn_Parameter [[20], [21]]\<rparr>]
         [[[1]], [[0, 1, 1, 0]]] = Inr [[[11]], [[20]], [[21]], [[21]], [[20]]]"
    by (simp add: embed_tokens_def Embedding_forward_def nn_Parameter_def torch_cat1_def
        cat_compatible_def permute102_def upt_rec)
  have f: "Embedding_forward \<lparr>weight = nn_Parameter [[20], [21]]\<rparr> [[0, 1, 1, 0]] = Inr [[[20], [21], [21], [20]]]"
    by (simp add: Embedding_forward_def nn_Parameter_def)
  from pyramid_order [OF p _ e, of 1] f p e show ?thesis
    by simp
qed

subsection \<open>The shapes of the results\<close>

lemma Embedding_forward_total:
  assumes W: "has_shape2 (data (weight E)) (V, d)"
    and idx: "has_shape2 idx (B, n)" and rng: "list_all (list_all (\<lambda>k. k < V)) idx"
  shows "\<exists>e. Embedding_forward E idx = Inr e \<and> has_shape3 e (B, n, d)"
proof -
  let ?W = "data (weight E)"
  let ?f = "\<lambda>k. if k < length ?W then Inr (?W ! k) else Inl IndexError"
  have lW: "length ?W = V" and rW: "\<forall>r \<in> set ?W. length r = d"
    using W by (auto simp: has_shape2_iff)
  have row: "\<forall>r \<in> set idx. \<exists>y. mapM ?f r = Inr y \<and> has_shape2 y (n, d)"
  proof
    fix r assume r: "r \<in> set idx"
    with rng have "\<forall>k \<in> set r. k < V" by (auto simp: list_all_iff)
    then have "\<forall>k \<in> set r. \<exists>y. ?f k = Inr y \<and> length y = d"
      using lW rW by auto
    from mapM_total [OF this] obtain y where "mapM ?f r = Inr y" "length y = length r"
      "\<forall>v \<in> set y. length v = d" by blast
    moreover have "length r = n" using r idx by (auto simp: has_shape2_iff)
    ultimately show "\<exists>y. mapM ?f r = Inr y \<and> has_shape2 y (n, d)"
      by (auto simp: has_shape2_iff)
  qed
  from mapM_total [OF row] obtain e where "mapM (mapM ?f) idx = Inr e" "length e = length idx"
    "\<forall>y \<in> set e. has_shape2 y (n, d)" by blast
  moreover have "length idx = B" using idx by (simp add: has_shape2_iff)
  ultimately show ?thesis
    by (auto simp: Embedding_forward_def Let_def has_shape3_iff)
qed

lemma embed_loop_total:
  assumes "list_all2 (\<lambda>idx hw. has_shape2 idx (B, token_count hw) \<and> list_all (list_all (\<lambda>k. k < V)) idx)
             idxs hws"
    and "\<forall>E \<in> set fe. has_shape2 (data (weight E)) (V, d)"
    and "k + length idxs \<le> length fe"
  shows "\<exists>es. embed_loop fe k idxs = Inr es
           \<and> list_all2 (\<lambda>e hw. has_shape3 e (B, token_count hw, d)) es hws"
  using assms
proof (induction idxs hws arbitrary: k rule: list_all2_induct)
  case Nil
  then show ?case by simp
next
  case (Cons idx idxs hw hws)
  from Cons.prems have k: "k < length fe" and k': "Suc k + length idxs \<le> length fe"
    by simp_all
  from k Cons.prems(1) have "has_shape2 (data (weight (fe ! k))) (V, d)"
    by simp
  from Embedding_forward_total [OF this] Cons.hyps(1) obtain e where
    e: "Embedding_forward (fe ! k) idx = Inr e" "has_shape3 e (B, token_count hw, d)"
    by blast
  from Cons.IH [OF Cons.prems(1) k'] obtain es where
    es: "embed_loop fe (Suc k) idxs = Inr es"
    "list_all2 (\<lambda>e hw. has_shape3 e (B, token_count hw, d)) es hws"
    by blast
  from k e es show ?case by simp
qed

lemma cat_row:
  "list_all2 (\<lambda>e n. has_shape3 e (B, n, d)) es ns \<Longrightarrow> b < B \<Longrightarrow>
   length (concat (map (\<lambda>u. u ! b) es)) = sum_list ns
   \<and> (\<forall>v \<in> set (concat (map (\<lambda>u. u ! b) es)). length v = d)"
proof (induction es ns rule: list_all2_induct)
  case Nil
  then show ?case by simp
next
  case (Cons e es n ns)
  from Cons.hyps(1) Cons.prems have "e ! b \<in> set e" "\<forall>r \<in> set e. has_shape2 r (n, d)"
    by (auto simp: has_shape3_iff)
  then have "has_shape2 (e ! b) (n, d)" by blast
  then have "length (e ! b) = n" "\<forall>v \<in> set (e ! b). length v = d"
    by (auto simp: has_shape2_iff)
  with Cons.IH [OF Cons.prems] show ?case by auto
qed

lemma cat_shape:
  assumes es: "list_all2 (\<lambda>e n. has_shape3 e (B, n, d)) es ns" and ne: "es \<noteq> []"
  shows "\<exists>c. torch_cat1 es = Inr c \<and> has_shape3 c (B, sum_list ns, d)"
proof -
  have sh: "\<forall>u \<in> set es. \<exists>n. has_shape3 u (B, n, d)"
    using es by (auto simp: list_all2_conv_all_nth in_set_conv_nth) blast
  then have lB: "\<forall>u \<in> set es. length u = B"
    by (auto simp: has_shape3_iff)
  have vd: "\<forall>v \<in> set (concat (concat es)). length v = d"
    using sh by (fastforce simp: has_shape3_iff has_shape2_iff)
  have "list_all (\<lambda>v. length v = length (hd (concat (concat es)))) (concat (concat es))"
  proof (cases "concat (concat es) = []")
    case True
    show ?thesis unfolding True by simp
  next
    case False
    then have "hd (concat (concat es)) \<in> set (concat (concat es))" by (rule hd_in_set)
    with vd have "length (hd (concat (concat es))) = d" by blast
    with vd show ?thesis by (simp add: list_all_iff)
  qed
  moreover from ne lB have "length (hd es) = B" by (cases es) auto
  ultimately have comp: "cat_compatible es"
    using ne lB by (cases es) (auto simp: cat_compatible_def Let_def list_all_iff)
  let ?c = "map (\<lambda>b. concat (map (\<lambda>u. u ! b) es)) [0..<length (hd es)]"
  have "has_shape3 ?c (B, sum_list ns, d)"
    using cat_row [OF es] \<open>length (hd es) = B\<close>
    by (auto simp: has_shape3_iff has_shape2_iff)
  with comp show ?thesis by (simp add: torch_cat1_def)
qed

lemma permute102_shape:
  assumes "has_shape3 t (a, b, c)" and "0 < a"
  shows "has_shape3 (permute102 t) (b, a, c)"
proof -
  from assms have ne: "t \<noteq> []" and la: "length t = a"
    and rows: "\<forall>r \<in> set t. length r = b \<and> (\<forall>v \<in> set r. length v = c)"
    by (auto simp: has_shape3_iff has_shape2_iff)
  from ne rows have "length (t ! 0) = b" by (cases t) auto
  with permute102_nonempty [OF ne]
  have p: "permute102 t = map (\<lambda>j. map (\<lambda>row. row ! j) t) [0..<b]" by simp
  show ?thesis
    unfolding p using la rows by (auto simp: has_shape3_iff has_shape2_iff)
qed

lemma run_layers_shape:
  assumes ok: "torch_ok T"
    and ls: "\<forall>layer \<in> set layers. TransformerSALayer_init T e h m 0 ''gelu'' = Inr layer"
    and pos: "has_shape3 pos (n, b, e)" and q: "has_shape3 q (n, b, e)"
  shows "\<exists>out. run_layers T rng layers pos q = Inr out \<and> has_shape3 out (n, b, e)"
  using ls q
proof (induction layers arbitrary: q)
  case Nil
  then show ?case by simp
next
  case (Cons l layers)
  then have i: "TransformerSALayer_init T e h m 0 ''gelu'' = Inr l" by simp
  from spec_shape [OF ok i _ Cons.prems(2), of "Some pos"] pos
  obtain y where y: "sa_layer_spec T l q None None (Some pos) = Inr y" "has_shape3 y (n, b, e)"
    by auto
  have "TransformerSALayer_forward T rng l q None None (Some pos) = Inr y"
    using forward_is_spec [OF init_dropout_inactive [OF i], where T = T and rng = rng] y(1) by simp
  moreover from Cons.IH [OF _ y(2)] Cons.prems(1)
  obtain out where "run_layers T rng layers pos y = Inr out" "has_shape3 out (n, b, e)"
    by auto
  ultimately show ?case by simp
qed


lemma configured_total: "total_tokens (map (\<lambda>pn. (pn, pn)) [1, 2, 3, 4, 5, 6, 8, 10, 13, 16]) = 680"
  by (simp add: total_tokens_def token_count_def)

text \<open>
  Claim C1. For a constructed model and every valid input batch of size \<open>B\<close> (one the
  tokenizer maps to a latent of shape (B, 32, 16, 16) and to a pyramid of the configured
  scales), \<open>forward\<close> returns a pair: logits of shape (B, L, codebook size), where
  \<open>L\<close> is the sum of ph * pw over the configured scales, which is 680, and the latent
  of shape (B, 32, 16, 16). The library is assumed to have the shapes torch documents
  (\<open>torch_ok\<close>).
\<close>

theorem forward_shapes:
  assumes ok: "torch_ok T"
    and init: "CodeFormer2_init T A d h n V ls conn path = Inr self"
    and valid: "valid_input A (vqvae self) x B"
    and B: "0 < B"
  shows "total_tokens (patch_hws (vqvae self)) = 680
    \<and> (\<exists>logits latent.
          CodeFormer2_forward T A rng self x w d16 co ad = Inr (logits, latent)
          \<and> has_shape3 logits (B, 680, V)
          \<and> has_shape4 latent (B, 32, 16, 16))"
proof -
  let ?hws = "patch_hws (vqvae self)"
  note tok = CodeFormer2_init_tokenizer [OF init]
  have total: "total_tokens ?hws = 680"
    using tok(2) configured_total by simp
  from CodeFormer2_init_Inr [OF init] have
    pe: "data (position_emb self) = replicate 680 (replicate d 0)"
    and fe: "feat_emb self = map (\<lambda>(ph, pw). nn_Embedding T V d) ?hws"
    and head: "idx_pred_layer self = (nn_LayerNorm T d, nn_Linear T d V False)"
    by (auto simp: nn_Parameter_def)
  from valid obtain lq idxs where t: "tokenize A (vqvae self) x = Inr (lq, idxs)"
    and lq: "has_shape4 lq (B, 32, 16, 16)"
    and pyr: "valid_pyramid B V ?hws idxs"
    using tok(1) by (auto simp: valid_input_def fixed_config_def split: sum.splits)
  from lq have llq: "length lq = B" by (simp add: has_shape4_iff)
  from ok have ln: "LayerNorm_ok T" and lin: "Linear_ok T" and emb: "Embedding_ok T"
    by (simp_all add: torch_ok_def)
  have tables: "\<forall>E \<in> set (feat_emb self). has_shape2 (data (weight E)) (V, d)"
    using emb by (auto simp: fe nn_Embedding_def nn_Parameter_def Embedding_ok_def)
  from pyr have len: "length idxs = length ?hws"
    by (auto simp: valid_pyramid_def dest: list_all2_lengthD)
  then have "0 + length idxs \<le> length (feat_emb self)" by (simp add: fe)
  from embed_loop_total [OF pyr [unfolded valid_pyramid_def] tables this]
  obtain es where es: "embed_loop (feat_emb self) 0 idxs = Inr es"
    "list_all2 (\<lambda>e hw. has_shape3 e (B, token_count hw, d)) es ?hws"
    by blast
  from es(2) have es': "list_all2 (\<lambda>e n. has_shape3 e (B, n, d)) es (map token_count ?hws)"
    by (simp add: list_all2_map2)
  from es(2) tok(2) have "length es = 10" by (auto dest: list_all2_lengthD)
  then have "es \<noteq> []" by auto
  from cat_shape [OF es' this] obtain c where c: "torch_cat1 es = Inr c"
    "has_shape3 c (B, 680, d)"
    using total by (auto simp: total_tokens_def)
  from permute102_shape [OF c(2) B] have seq: "has_shape3 (permute102 c) (680, B, d)" .
  have et: "embed_tokens (feat_emb self) idxs = Inr (permute102 c)"
    by (simp add: embed_tokens_def es(1) c(1))
  let ?pos = "map (\<lambda>row. replicate (length lq) row) (data (position_emb self))"
  have pos: "has_shape3 ?pos (680, B, d)"
    by (auto simp: pe llq has_shape3_iff has_shape2_iff)
  from run_layers_shape [OF ok init_layers(1) [OF init] pos seq]
  obtain q where q: "run_layers T rng (ft_layers self) ?pos (permute102 c) = Inr q"
    "has_shape3 q (680, B, d)"
    by blast
  from ln q(2) obtain nq where nq: "layer_norm T (map snd (init_LayerNorm T d)) q = Inr nq"
    "has_shape3 nq (680, B, d)"
    unfolding LayerNorm_ok_def by blast
  from lin nq(2) obtain lg where lg: "linear T (map snd (init_Linear T d V False)) nq = Inr lg"
    "has_shape3 lg (680, B, V)"
    unfolding Linear_ok_def by blast
  have "has_shape3 (permute102 lg) (B, 680, V)"
    by (rule permute102_shape [OF lg(2)]) simp
  moreover have "CodeFormer2_forward T A rng self x w d16 co ad = Inr (permute102 lg, lq)"
    by (simp add: CodeFormer2_forward_def t et q(1) head nn_LayerNorm_def nn_Linear_def
        weights_new_module nq(1) lg(1))
  ultimately show ?thesis
    using total lq by simp
qed


lemma toy_valid_input: "valid_input toy_arch (vqvae toy_self) toy_image 1"
  by (simp add: valid_input_def tokenize_def getattr_def toy_self_def toy_vqvae_def toy_arch_def
      toy_image_def fixed_config_def valid_pyramid_def has_shape4_def has_shape3_def has_shape2_def
      token_count_def list_all_length)

theorem forward_shapes_witness:
  "torch_ok toy_torch
   \<and> CodeFormer2_init toy_torch toy_arch 2 2 1 4 32 [''32''] None = Inr toy_self
   \<and> valid_input toy_arch (vqvae toy_self) toy_image 1
   \<and> total_tokens (patch_hws (vqvae toy_self)) = 680
   \<and> (\<exists>logits latent.
         CodeFormer2_forward toy_torch toy_arch 0 toy_self toy_image 0 True False False
           = Inr (logits, latent)
         \<and> has_shape3 logits (1, 680, 4) \<and> has_shape4 latent (1, 32, 16, 16))"
  using forward_shapes [OF toy_torch_ok toy_self_init toy_valid_input, of 0 0 True False False]
    toy_torch_ok toy_self_init toy_valid_input
  by simp

end
